theory Spec2Isabelle
  imports Complex_Main "HOL-Library.Char_ord" "HOL-Library.List_Lexorder"
    "HOL-Library.Product_Lexorder" "HOL-Library.Option_ord"
begin

section \<open>Requests, responses and the stored collections\<close>

text \<open>
  The backend is an Express application over four Mongoose collections. A route is a list
  of middlewares followed by a handler. A middleware either calls \<open>next()\<close>, answers the
  request itself, or throws; a handler answers and may change the store. The store is passed
  explicitly and returned updated.

  Scalar JSON values of a request body. A body is a partial map from field names to values;
  a field that is not sent is \<open>None\<close> (JavaScript \<open>undefined\<close>). Arrays and nested
  objects (\<open>dishes\<close>, \<open>items\<close>) and JSON \<open>null\<close> are outside the model, and so are
  query strings and cookies. ObjectIds are compared as the strings they are written as. Accented letters of the French messages are written without the accent.
\<close>

datatype json = JBool bool | JNum real | JStr string

type_synonym jbody = "string \<Rightarrow> json option"

text \<open>The object stored in the token by the login and register routes: \<open>{ id, role }\<close>.\<close>

record claims =
  user_id :: string
  user_role :: string

text \<open>What \<open>jwt.verify\<close> returns: the decoded payload, whose \<open>user\<close> property may be missing.\<close>

datatype decoded = Decoded (decoded_user: "claims option")

datatype js_error =
    TypeError
  | CastError string
  | ValidationError "string list"
  | DuplicateKey

text \<open>
  Modelled from the spec: models/User.js, models/MenuItem.js and models/Order.js are not
  among the sources; the fields of the three records below are those of the spec's data
  model, which the routes read and write. The reservation record follows
  models/Reservation.js; a path of a reservation that holds no value is \<open>None\<close>.
\<close>

record user =
  u_id :: string
  u_name :: string
  u_email :: string
  u_password :: string
  u_role :: string
  u_salary :: "real option"

record menuItem =
  m_id :: string
  m_name :: string
  m_description :: string
  m_price :: real
  m_category :: string
  m_image :: string
  m_available :: bool

record order =
  o_id :: string
  o_user :: string
  o_items :: "(string \<times> int) list"
  o_totalAmount :: real
  o_status :: string
  o_createdAt :: nat

record reservation =
  r_id :: string
  r_name :: "string option"
  r_email :: "string option"
  r_phone :: "string option"
  r_date :: "string option"
  r_time :: "string option"
  r_type :: "string option"
  r_numberOfPeople :: "real option"
  r_address :: "string option"
  r_specialRequests :: "string option"
  r_totalAmount :: "real option"
  r_status :: "string option"
  r_createdAt :: nat

record db =
  users :: "user list"
  menuItems :: "menuItem list"
  orders :: "order list"
  reservations :: "reservation list"

datatype rbody =
    Msg string
  | Message string
  | MessageUser string user
  | Errors "(string \<times> string) list"
  | Text string
  | GlobalFault js_error
  | ErrMessage js_error
  | TokenUser string string string string string
  | OneMenuItem menuItem
  | MenuItems "menuItem list"
  | OneReservation reservation
  | Reservations "reservation list"
  | Counts nat nat nat

datatype response = Response (status: nat) (content: rbody)

text \<open>
  The request as the middlewares see it: the \<open>x-auth-token\<close> header, the route parameter,
  the parsed body, \<open>req.user\<close> (undefined until the \<open>auth\<close> middleware sets it) and the
  errors recorded so far by the express-validator checks.
\<close>

record req =
  header_token :: "string option"
  param_id :: string
  body :: jbody
  req_user :: "claims option"
  verrors :: "(string \<times> string) list"

datatype mw_result = Next req | Respond response | Throw js_error

type_synonym middleware = "db \<Rightarrow> req \<Rightarrow> mw_result"
type_synonym handler = "db \<Rightarrow> req \<Rightarrow> response \<times> db"

text \<open>
  The libraries and the platform the routes call, taken as parameters: token signing and
  verification (jsonwebtoken), the string validators of express-validator, the conversions
  between numbers and strings, Mongoose's test that a string casts to an ObjectId, the
  ObjectId generated for a new document, the clock, and whether the process runs in
  development mode.
\<close>

record lib =
  jwt_verify :: "string \<Rightarrow> decoded option"
  jwt_sign :: "claims \<Rightarrow> string"
  bcrypt_hash :: "string \<Rightarrow> string"
  isEmail :: "string \<Rightarrow> bool"
  isInt :: "string \<Rightarrow> int \<Rightarrow> int \<Rightarrow> bool"
  numToString :: "real \<Rightarrow> string"
  strToNum :: "string \<Rightarrow> real option"
  isObjectId :: "string \<Rightarrow> bool"
  new_oid :: string
  now :: nat
  today :: string

section \<open>Middleware: server.js, middleware/auth.js, middleware/checkRole.js\<close>

text \<open>
  The error-handling middleware of server.js answers 500 to whatever a middleware throws.
\<close>

definition error_handler :: "js_error \<Rightarrow> response" where
  "error_handler e = Response 500 (GlobalFault e)"

fun run_chain :: "middleware list \<Rightarrow> handler \<Rightarrow> db \<Rightarrow> req \<Rightarrow> response \<times> db" where
  "run_chain [] h d r = h d r"
| "run_chain (m # ms) h d r =
     (case m d r of
        Next r' \<Rightarrow> run_chain ms h d r'
      | Respond resp \<Rightarrow> (resp, d)
      | Throw e \<Rightarrow> (error_handler e, d))"

text \<open>
  middleware/auth.js: an absent (or empty, hence falsy) token is answered 401; so is a token
  that \<open>jwt.verify\<close> rejects by throwing; otherwise \<open>req.user = decoded.user\<close>.
\<close>

definition auth :: "lib \<Rightarrow> middleware" where
  "auth L d r =
     (case header_token r of
        None \<Rightarrow> Respond (Response 401 (Msg ''Pas de token, autorisation refusee''))
      | Some t \<Rightarrow>
          if t = [] then Respond (Response 401 (Msg ''Pas de token, autorisation refusee''))
          else (case jwt_verify L t of
                  None \<Rightarrow> Respond (Response 401 (Msg ''Token non valide''))
                | Some dec \<Rightarrow> Next (r\<lparr>req_user := decoded_user dec\<rparr>)))"

text \<open>
  middleware/checkRole.js reads \<open>req.user.role\<close> with no test that \<open>req.user\<close> is set:
  on an undefined \<open>req.user\<close> the property access throws a TypeError.
\<close>

definition checkRole :: "string list \<Rightarrow> middleware" where
  "checkRole roles d r =
     (case req_user r of
        None \<Rightarrow> Throw TypeError
      | Some u \<Rightarrow>
          if \<not> (user_role u \<in> set roles)
          then Respond (Response 403
                 (Msg ''Acces refuse - Vous n'avez pas les permissions necessaires''))
          else Next r)"

text \<open>The guard in front of the checks and the handler of POST /api/menu.\<close>

definition menu_post_guard :: "lib \<Rightarrow> middleware list" where
  "menu_post_guard L = [auth L, checkRole [''staff'', ''admin'']]"

section \<open>express-validator checks\<close>

text \<open>
  A check reads its field from the body, turns the value into a string (a missing value
  becomes the empty string), applies the validator, records \<open>(field, message)\<close> on failure
  and always calls \<open>next()\<close>; the handler looks at the recorded errors.
\<close>

fun vstring :: "lib \<Rightarrow> json option \<Rightarrow> string" where
  "vstring L None = []"
| "vstring L (Some (JStr s)) = s"
| "vstring L (Some (JNum n)) = numToString L n"
| "vstring L (Some (JBool b)) = (if b then ''true'' else ''false'')"

definition check :: "lib \<Rightarrow> string \<Rightarrow> string \<Rightarrow> (string \<Rightarrow> bool) \<Rightarrow> middleware" where
  "check L field msg ok d r =
     Next (if ok (vstring L (body r field)) then r
           else r\<lparr>verrors := verrors r @ [(field, msg)]\<rparr>)"

definition notEmpty :: "string \<Rightarrow> bool" where
  "notEmpty s = (s \<noteq> [])"

definition isLength_min :: "nat \<Rightarrow> string \<Rightarrow> bool" where
  "isLength_min n s = (n \<le> length s)"

definition isIn :: "string list \<Rightarrow> string \<Rightarrow> bool" where
  "isIn opts s = (s \<in> set opts)"

section \<open>Mongoose: casting, lookup by id, saving\<close>

text \<open>
  Casting a body value to a String path never fails on a scalar; casting to a Number path
  turns the empty string into null (here: no value), other strings through \<open>Number(s)\<close>,
  and fails with a CastError of kind Number when the result is NaN.
\<close>

fun castString :: "lib \<Rightarrow> json \<Rightarrow> string" where
  "castString L (JStr s) = s"
| "castString L (JNum n) = numToString L n"
| "castString L (JBool b) = (if b then ''true'' else ''false'')"

fun castNumber :: "lib \<Rightarrow> json \<Rightarrow> js_error + real option" where
  "castNumber L (JNum n) = Inr (Some n)"
| "castNumber L (JBool b) = Inr (Some (if b then 1 else 0))"
| "castNumber L (JStr s) =
     (if s = [] then Inr None
      else (case strToNum L s of None \<Rightarrow> Inl (CastError ''Number'') | Some n \<Rightarrow> Inr (Some n)))"

text \<open>
  \<open>Model.findById(id)\<close>: a string that does not cast to an ObjectId makes the query
  reject with a CastError of kind ObjectId; otherwise the document with that id, or null.
\<close>

definition findById :: "lib \<Rightarrow> ('a \<Rightarrow> string) \<Rightarrow> 'a list \<Rightarrow> string \<Rightarrow> js_error + 'a option" where
  "findById L key coll i =
     (if \<not> isObjectId L i then Inl (CastError ''ObjectId'') else Inr (find (\<lambda>x. key x = i) coll))"

definition replace_doc :: "('a \<Rightarrow> string) \<Rightarrow> 'a \<Rightarrow> 'a list \<Rightarrow> 'a list" where
  "replace_doc key x coll = map (\<lambda>y. if key y = key x then x else y) coll"

definition remove_doc :: "('a \<Rightarrow> string) \<Rightarrow> string \<Rightarrow> 'a list \<Rightarrow> 'a list" where
  "remove_doc key i coll = filter (\<lambda>y. key y \<noteq> i) coll"

definition insert_doc :: "('a \<Rightarrow> string) \<Rightarrow> 'a \<Rightarrow> 'a list \<Rightarrow> js_error + 'a list" where
  "insert_doc key x coll =
     (if key x \<in> set (map key coll) then Inl DuplicateKey else Inr (coll @ [x]))"

section \<open>Reservations: models/Reservation.js and routes/reservations.js\<close>

text \<open>
  \<open>new Reservation(req.body)\<close>: every schema path is cast from the body; \<open>status\<close>
  defaults to pending and \<open>createdAt\<close> to the current time. A value that does not cast
  is reported by validation under its path.
\<close>

definition cast_str_path :: "lib \<Rightarrow> jbody \<Rightarrow> string \<Rightarrow> string option" where
  "cast_str_path L b p = map_option (castString L) (b p)"

definition cast_num_path :: "lib \<Rightarrow> jbody \<Rightarrow> string \<Rightarrow> js_error + real option" where
  "cast_num_path L b p = (case b p of None \<Rightarrow> Inr None | Some j \<Rightarrow> castNumber L j)"

definition num_value :: "js_error + real option \<Rightarrow> real option" where
  "num_value c = (case c of Inl e \<Rightarrow> None | Inr v \<Rightarrow> v)"

definition new_Reservation :: "lib \<Rightarrow> jbody \<Rightarrow> reservation" where
  "new_Reservation L b =
     \<lparr> r_id = new_oid L,
       r_name = cast_str_path L b ''name'',
       r_email = cast_str_path L b ''email'',
       r_phone = cast_str_path L b ''phone'',
       r_date = cast_str_path L b ''date'',
       r_time = cast_str_path L b ''time'',
       r_type = cast_str_path L b ''type'',
       r_numberOfPeople = num_value (cast_num_path L b ''numberOfPeople''),
       r_address = cast_str_path L b ''address'',
       r_specialRequests = cast_str_path L b ''specialRequests'',
       r_totalAmount = num_value (cast_num_path L b ''totalAmount''),
       r_status = (case b ''status'' of None \<Rightarrow> Some ''pending'' | Some j \<Rightarrow> Some (castString L j)),
       r_createdAt = now L \<rparr>"

definition cast_errors :: "lib \<Rightarrow> jbody \<Rightarrow> string list" where
  "cast_errors L b =
     filter (\<lambda>p. case cast_num_path L b p of Inl e \<Rightarrow> True | Inr v \<Rightarrow> False)
       [''numberOfPeople'', ''totalAmount'']"

text \<open>
  The validators of the schema. A required String path fails on a missing or empty value,
  a required Number path on a missing value; \<open>numberOfPeople\<close> is required when the type
  is surPlace and \<open>address\<close> when it is livraison; an enum is tested on a present value.
\<close>

definition missing_str :: "string option \<Rightarrow> bool" where
  "missing_str v = (case v of None \<Rightarrow> True | Some s \<Rightarrow> s = [])"

definition reservation_status_enum :: "string list" where
  "reservation_status_enum = [''pending'', ''confirmed'', ''rejected'', ''delivered'', ''completed'']"

definition reservation_errors :: "reservation \<Rightarrow> string list" where
  "reservation_errors r =
     (if missing_str (r_name r) then [''name''] else []) @
     (if missing_str (r_email r) then [''email''] else []) @
     (if missing_str (r_phone r) then [''phone''] else []) @
     (if missing_str (r_date r) then [''date''] else []) @
     (if missing_str (r_time r) then [''time''] else []) @
     (if missing_str (r_type r) \<or> (\<exists>t \<in> set_option (r_type r). t \<notin> set [''surPlace'', ''livraison''])
      then [''type''] else []) @
     (if r_type r = Some ''surPlace'' \<and> r_numberOfPeople r = None then [''numberOfPeople''] else []) @
     (if r_type r = Some ''livraison'' \<and> missing_str (r_address r) then [''address''] else []) @
     (if r_totalAmount r = None then [''totalAmount''] else []) @
     (if \<exists>s \<in> set_option (r_status r). s \<notin> set reservation_status_enum then [''status''] else [])"

text \<open>\<open>document.save()\<close> of a new reservation: validation, then the insert.\<close>

definition save_new_reservation :: "lib \<Rightarrow> jbody \<Rightarrow> db \<Rightarrow> js_error + (reservation \<times> db)" where
  "save_new_reservation L b d =
     (let r = new_Reservation L b; errs = cast_errors L b @ reservation_errors r in
      if errs \<noteq> [] then Inl (ValidationError errs)
      else (case insert_doc r_id r (reservations d) of
              Inl e \<Rightarrow> Inl e
            | Inr rs \<Rightarrow> Inr (r, d\<lparr>reservations := rs\<rparr>)))"

text \<open>
  \<open>findByIdAndUpdate(id, { $set: fields }, { new: true })\<close>: the id and the fields are
  cast, the schema's validators are not run, and the updated document (or null) is returned.
\<close>

definition set_str :: "lib \<Rightarrow> jbody \<Rightarrow> string \<Rightarrow> string option \<Rightarrow> string option" where
  "set_str L b p old = (case b p of None \<Rightarrow> old | Some j \<Rightarrow> Some (castString L j))"

definition set_num :: "lib \<Rightarrow> jbody \<Rightarrow> string \<Rightarrow> real option \<Rightarrow> real option" where
  "set_num L b p old = (case b p of None \<Rightarrow> old | Some j \<Rightarrow> num_value (castNumber L j))"

definition update_cast_error :: "lib \<Rightarrow> jbody \<Rightarrow> js_error option" where
  "update_cast_error L b =
     (case cast_num_path L b ''numberOfPeople'' of
        Inl e \<Rightarrow> Some e
      | Inr v \<Rightarrow> (case cast_num_path L b ''totalAmount'' of Inl e \<Rightarrow> Some e | Inr w \<Rightarrow> None))"

definition set_reservation :: "lib \<Rightarrow> jbody \<Rightarrow> reservation \<Rightarrow> reservation" where
  "set_reservation L b r =
     r\<lparr> r_name := set_str L b ''name'' (r_name r),
        r_email := set_str L b ''email'' (r_email r),
        r_phone := set_str L b ''phone'' (r_phone r),
        r_date := set_str L b ''date'' (r_date r),
        r_time := set_str L b ''time'' (r_time r),
        r_type := set_str L b ''type'' (r_type r),
        r_numberOfPeople := set_num L b ''numberOfPeople'' (r_numberOfPeople r),
        r_address := set_str L b ''address'' (r_address r),
        r_specialRequests := set_str L b ''specialRequests'' (r_specialRequests r),
        r_totalAmount := set_num L b ''totalAmount'' (r_totalAmount r),
        r_status := set_str L b ''status'' (r_status r) \<rparr>"

definition findByIdAndUpdate_reservation ::
  "lib \<Rightarrow> string \<Rightarrow> jbody \<Rightarrow> db \<Rightarrow> js_error + (reservation option \<times> db)" where
  "findByIdAndUpdate_reservation L i b d =
     (case findById L r_id (reservations d) i of
        Inl e \<Rightarrow> Inl e
      | Inr found \<Rightarrow>
          (case update_cast_error L b of
             Some e \<Rightarrow> Inl e
           | None \<Rightarrow>
               (case found of
                  None \<Rightarrow> Inr (None, d)
                | Some r \<Rightarrow>
                    (let r' = set_reservation L b r in
                     Inr (Some r', d\<lparr>reservations := replace_doc r_id r' (reservations d)\<rparr>)))))"

text \<open>
  The handlers. Each one is the body of the route's async function: its try block, and
  its catch block as the branch taken on an error value.
\<close>

definition not_found_or_500 :: "js_error \<Rightarrow> string \<Rightarrow> response" where
  "not_found_or_500 e msg =
     (if e = CastError ''ObjectId'' then Response 404 (Msg msg)
      else Response 500 (Text ''Erreur serveur''))"

text \<open>POST /api/reservations\<close>

definition reservations_post_checks :: "lib \<Rightarrow> middleware list" where
  "reservations_post_checks L =
     [check L ''date'' ''La date est requise'' notEmpty,
      check L ''time'' ''L'heure est requise'' notEmpty,
      check L ''guests'' ''Le nombre de personnes est requis'' (\<lambda>s. isInt L s 1 10),
      check L ''name'' ''Le nom est requis'' notEmpty,
      check L ''email'' ''Email invalide'' (isEmail L),
      check L ''phone'' ''Le numero de telephone est requis'' notEmpty]"

definition reservations_post :: "lib \<Rightarrow> handler" where
  "reservations_post L d r =
     (if verrors r \<noteq> [] then (Response 400 (Errors (verrors r)), d)
      else (case save_new_reservation L (body r) d of
              Inl e \<Rightarrow> (Response 500 (Text ''Erreur serveur''), d)
            | Inr (res, d') \<Rightarrow> (Response 200 (OneReservation res), d')))"

text \<open>GET /api/reservations\<close>

definition reservations_get_all :: "lib \<Rightarrow> handler" where
  "reservations_get_all L d r =
     (Response 200 (Reservations (sort_key (\<lambda>x. (r_date x, r_time x)) (reservations d))), d)"

text \<open>GET /api/reservations/:id\<close>

definition reservations_get_one :: "lib \<Rightarrow> handler" where
  "reservations_get_one L d r =
     (case findById L r_id (reservations d) (param_id r) of
        Inl e \<Rightarrow> (not_found_or_500 e ''Reservation non trouvee'', d)
      | Inr None \<Rightarrow> (Response 404 (Msg ''Reservation non trouvee''), d)
      | Inr (Some res) \<Rightarrow> (Response 200 (OneReservation res), d))"

text \<open>PUT /api/reservations/:id\<close>

definition reservations_put_checks :: "lib \<Rightarrow> middleware list" where
  "reservations_put_checks L =
     [auth L, checkRole [''staff'', ''admin''],
      check L ''status'' ''Le statut est requis'' (isIn [''pending'', ''confirmed'', ''cancelled''])]"

definition reservations_put :: "lib \<Rightarrow> handler" where
  "reservations_put L d r =
     (if verrors r \<noteq> [] then (Response 400 (Errors (verrors r)), d)
      else (case findByIdAndUpdate_reservation L (param_id r) (body r) d of
              Inl e \<Rightarrow> (not_found_or_500 e ''Reservation non trouvee'', d)
            | Inr (None, d') \<Rightarrow> (Response 404 (Msg ''Reservation non trouvee''), d')
            | Inr (Some res, d') \<Rightarrow> (Response 200 (OneReservation res), d')))"

text \<open>DELETE /api/reservations/:id\<close>

definition reservations_delete :: "lib \<Rightarrow> handler" where
  "reservations_delete L d r =
     (case findById L r_id (reservations d) (param_id r) of
        Inl e \<Rightarrow> (not_found_or_500 e ''Reservation non trouvee'', d)
      | Inr None \<Rightarrow> (Response 404 (Msg ''Reservation non trouvee''), d)
      | Inr (Some res) \<Rightarrow>
          (Response 200 (Msg ''Reservation supprimee''),
           d\<lparr>reservations := remove_doc r_id (r_id res) (reservations d)\<rparr>))"

text \<open>POST /api/reservations/new\<close>

definition reservations_new :: "lib \<Rightarrow> handler" where
  "reservations_new L d r =
     (case save_new_reservation L (body r) d of
        Inl e \<Rightarrow> (Response 400 (ErrMessage e), d)
      | Inr (res, d') \<Rightarrow> (Response 201 (OneReservation res), d'))"

text \<open>GET /api/reservations/all\<close>

definition reservations_all :: "lib \<Rightarrow> handler" where
  "reservations_all L d r =
     (Response 200 (Reservations (sort_key (\<lambda>x. - int (r_createdAt x)) (reservations d))), d)"

text \<open>PATCH /api/reservations/:id/status\<close>

definition reservations_patch_status :: "lib \<Rightarrow> handler" where
  "reservations_patch_status L d r =
     (case findByIdAndUpdate_reservation L (param_id r)
             (\<lambda>p. if p = ''status'' then body r ''status'' else None) d of
        Inl e \<Rightarrow> (Response 400 (ErrMessage e), d)
      | Inr (None, d') \<Rightarrow> (Response 404 (Message ''Reservation non trouvee''), d')
      | Inr (Some res, d') \<Rightarrow> (Response 200 (OneReservation res), d'))"

text \<open>GET /api/reservations/stats\<close>

definition reservations_stats :: "lib \<Rightarrow> handler" where
  "reservations_stats L d r =
     (Response 200 (Counts (length (reservations d))
        (length (filter (\<lambda>x. r_status x = Some ''pending'') (reservations d)))
        (length (filter (\<lambda>x. r_date x = Some (today L)) (reservations d)))), d)"

section \<open>Routing\<close>

text \<open>
  An Express router tries its routes in the order they were registered and runs the first
  one whose method and path match; none of the handlers here passes the request on. A path
  is the list of its segments below the router's mount point; a literal segment is
  compared as written and \<open>:id\<close> matches any one non-empty segment. A request that no
  route matches gets Express's default 404 answer (its text is abbreviated here). A request
  enters with \<open>req.user\<close> undefined: no application-level middleware of server.js sets
  it.
\<close>

datatype http_method = GET | POST | PUT | PATCH | DELETE

datatype seg = Lit string | Param

record http_request =
  q_method :: http_method
  q_path :: "string list"
  q_token :: "string option"
  q_body :: jbody

type_synonym route = "http_method \<times> seg list \<times> middleware list \<times> handler"

fun match_path :: "seg list \<Rightarrow> string list \<Rightarrow> string \<Rightarrow> string option" where
  "match_path [] [] acc = Some acc"
| "match_path (Lit s # ps) (x # xs) acc = (if s = x then match_path ps xs acc else None)"
| "match_path (Param # ps) (x # xs) acc = (if x = [] then None else match_path ps xs x)"
| "match_path ps xs acc = None"

definition incoming :: "http_request \<Rightarrow> string \<Rightarrow> req" where
  "incoming q i =
     \<lparr> header_token = q_token q, param_id = i, body = q_body q, req_user = None, verrors = [] \<rparr>"

fun dispatch :: "route list \<Rightarrow> http_request \<Rightarrow> db \<Rightarrow> response \<times> db" where
  "dispatch [] q d = (Response 404 (Text ''Cannot find route''), d)"
| "dispatch ((m, pat, ch, h) # rs) q d =
     (if m = q_method q
      then (case match_path pat (q_path q) [] of
              Some i \<Rightarrow> run_chain ch h d (incoming q i)
            | None \<Rightarrow> dispatch rs q d)
      else dispatch rs q d)"

text \<open>routes/reservations.js, in the order of the file.\<close>

definition reservations_router :: "lib \<Rightarrow> route list" where
  "reservations_router L =
     [(POST, [], reservations_post_checks L, reservations_post L),
      (GET, [], [auth L, checkRole [''staff'', ''admin'']], reservations_get_all L),
      (GET, [Param], [auth L, checkRole [''staff'', ''admin'']], reservations_get_one L),
      (PUT, [Param], reservations_put_checks L, reservations_put L),
      (DELETE, [Param], [auth L, checkRole [''staff'', ''admin'']], reservations_delete L),
      (POST, [Lit ''new''], [], reservations_new L),
      (GET, [Lit ''all''], [checkRole [''admin'', ''staff'']], reservations_all L),
      (PATCH, [Param, Lit ''status''], [checkRole [''admin'', ''staff'']], reservations_patch_status L),
      (GET, [Lit ''stats''], [auth L, checkRole [''staff'', ''admin'']], reservations_stats L)]"

section \<open>Menu: routes/menu.js\<close>

text \<open>
  Modelled from the spec: models/MenuItem.js is not among the sources. The spec gives a menu
  item a name, a description, a price above 0, a category of an enumerated set (the one
  POST /api/menu checks), an image and the flag \<open>available\<close>.
\<close>

definition menuItem_errors :: "menuItem \<Rightarrow> string list" where
  "menuItem_errors m =
     (if m_name m = [] then [''name''] else []) @
     (if m_description m = [] then [''description''] else []) @
     (if \<not> 0 < m_price m then [''price''] else []) @
     (if m_category m \<notin> set [''Entrees'', ''Plats'', ''Desserts'', ''Boissons''] then [''category''] else []) @
     (if m_image m = [] then [''image''] else [])"

definition save_menuItem :: "menuItem \<Rightarrow> db \<Rightarrow> js_error + db" where
  "save_menuItem m d =
     (if menuItem_errors m \<noteq> [] then Inl (ValidationError (menuItem_errors m))
      else Inr (d\<lparr>menuItems := replace_doc m_id m (menuItems d)\<rparr>))"

text \<open>GET /api/menu: the available items, by category and name.\<close>

definition menu_get :: "lib \<Rightarrow> handler" where
  "menu_get L d r =
     (Response 200
        (MenuItems (sort_key (\<lambda>m. (m_category m, m_name m)) (filter m_available (menuItems d)))), d)"

text \<open>DELETE /api/menu/:id, behind \<open>auth\<close> and \<open>checkRole(['staff', 'admin'])\<close>.\<close>

definition menu_delete :: "lib \<Rightarrow> handler" where
  "menu_delete L d r =
     (case findById L m_id (menuItems d) (param_id r) of
        Inl e \<Rightarrow> (not_found_or_500 e ''Element non trouve'', d)
      | Inr None \<Rightarrow> (Response 404 (Msg ''Element non trouve''), d)
      | Inr (Some m) \<Rightarrow>
          (case save_menuItem (m\<lparr>m_available := False\<rparr>) d of
             Inl e \<Rightarrow> (not_found_or_500 e ''Element non trouve'', d)
           | Inr d' \<Rightarrow> (Response 200 (Msg ''Element supprime du menu''), d')))"

section \<open>Orders: routes/orders.js\<close>

text \<open>
  Modelled from the spec: models/Order.js is not among the sources. The spec gives an order
  an owning user, items with a quantity of at least 1, a total of at least 0 and a status
  among pending, preparing, ready, delivered and cancelled.
\<close>

definition order_errors :: "order \<Rightarrow> string list" where
  "order_errors x =
     (if o_user x = [] then [''user''] else []) @
     (if \<exists>it \<in> set (o_items x). snd it < 1 then [''items''] else []) @
     (if o_totalAmount x < 0 then [''totalAmount''] else []) @
     (if o_status x \<notin> set [''pending'', ''preparing'', ''ready'', ''delivered'', ''cancelled'']
      then [''status''] else [])"

definition save_order :: "order \<Rightarrow> db \<Rightarrow> js_error + db" where
  "save_order x d =
     (if order_errors x \<noteq> [] then Inl (ValidationError (order_errors x))
      else Inr (d\<lparr>orders := replace_doc o_id x (orders d)\<rparr>))"

text \<open>
  DELETE /api/orders/:id, behind \<open>auth\<close>. The order is looked up first; \<open>req.user.role\<close>
  is read only after the order was found, inside the try block.
\<close>

definition orders_delete :: "lib \<Rightarrow> handler" where
  "orders_delete L d r =
     (case findById L o_id (orders d) (param_id r) of
        Inl e \<Rightarrow> (not_found_or_500 e ''Commande non trouvee'', d)
      | Inr None \<Rightarrow> (Response 404 (Msg ''Commande non trouvee''), d)
      | Inr (Some x) \<Rightarrow>
          (case req_user r of
             None \<Rightarrow> (not_found_or_500 TypeError ''Commande non trouvee'', d)
           | Some u \<Rightarrow>
               if user_role u = ''client'' \<and> o_user x \<noteq> user_id u
               then (Response 403 (Msg ''Non autorise''), d)
               else (case save_order (x\<lparr>o_status := ''cancelled''\<rparr>) d of
                       Inl e \<Rightarrow> (not_found_or_500 e ''Commande non trouvee'', d)
                     | Inr d' \<Rightarrow> (Response 200 (Msg ''Commande annulee''), d'))))"

definition orders_delete_route :: "lib \<Rightarrow> db \<Rightarrow> req \<Rightarrow> response \<times> db" where
  "orders_delete_route L = run_chain [auth L] (orders_delete L)"

section \<open>Users: routes/auth.js and routes/admin.js\<close>

text \<open>
  Modelled from the spec: models/User.js is not among the sources. The spec gives a user a
  name, a unique email, a password stored hashed, a role among client, staff and admin, and
  a salary that is required exactly when the role is staff or admin.
\<close>

definition user_errors :: "user \<Rightarrow> string list" where
  "user_errors x =
     (if u_name x = [] then [''name''] else []) @
     (if u_email x = [] then [''email''] else []) @
     (if u_password x = [] then [''password''] else []) @
     (if u_role x \<notin> set [''client'', ''staff'', ''admin''] then [''role''] else []) @
     (if u_role x \<in> set [''staff'', ''admin''] \<and> u_salary x = None then [''salary''] else [])"

text \<open>
  \<open>save()\<close> of a new user: validation, the hashing of the password, then the insert. The
  validators are a parameter \<open>V\<close>, the list of failing paths of a document;
  \<open>user_errors\<close> is the schema of the spec.
\<close>

definition save_new_user :: "(user \<Rightarrow> string list) \<Rightarrow> lib \<Rightarrow> user \<Rightarrow> db \<Rightarrow> js_error + (user \<times> db)" where
  "save_new_user V L x d =
     (if V x \<noteq> [] then Inl (ValidationError (V x))
      else (let x' = x\<lparr>u_password := bcrypt_hash L (u_password x)\<rparr> in
            case insert_doc u_id x' (users d) of
              Inl e \<Rightarrow> Inl e
            | Inr us \<Rightarrow> Inr (x', d\<lparr>users := us\<rparr>)))"

definition save_user :: "user \<Rightarrow> db \<Rightarrow> js_error + db" where
  "save_user x d =
     (if user_errors x \<noteq> [] then Inl (ValidationError (user_errors x))
      else Inr (d\<lparr>users := replace_doc u_id x (users d)\<rparr>))"

text \<open>
  POST /api/auth/register. The role is destructured from the body with the default
  \<open>'client'\<close>, which applies only when the property is undefined; name, email, password
  and role go to \<open>new User\<close> as they are, and nothing else does: the document has no
  salary. The route takes the validators \<open>V\<close> of the user schema as a parameter.
\<close>

definition register_checks :: "lib \<Rightarrow> middleware list" where
  "register_checks L =
     [check L ''name'' ''Le nom est requis'' notEmpty,
      check L ''email'' ''Veuillez inclure un email valide'' (isEmail L),
      check L ''password'' ''Le mot de passe doit contenir au moins 6 caracteres'' (isLength_min 6)]"

definition str_or_empty :: "lib \<Rightarrow> json option \<Rightarrow> string" where
  "str_or_empty L v = (case v of None \<Rightarrow> [] | Some j \<Rightarrow> castString L j)"

definition register :: "(user \<Rightarrow> string list) \<Rightarrow> lib \<Rightarrow> handler" where
  "register V L d r =
     (if verrors r \<noteq> [] then (Response 400 (Errors (verrors r)), d)
      else
        (let role = (case body r ''role'' of None \<Rightarrow> JStr ''client'' | Some j \<Rightarrow> j);
             email = str_or_empty L (body r ''email'')
         in if find (\<lambda>x. u_email x = email) (users d) \<noteq> None
            then (Response 400 (Msg ''Cet utilisateur existe deja''), d)
            else
              (case save_new_user V L
                      \<lparr> u_id = new_oid L,
                        u_name = str_or_empty L (body r ''name''),
                        u_email = email,
                        u_password = str_or_empty L (body r ''password''),
                        u_role = castString L role,
                        u_salary = None \<rparr> d of
                 Inl e \<Rightarrow> (Response 500 (Text ''Erreur serveur''), d)
               | Inr (x, d') \<Rightarrow>
                   (Response 200
                      (TokenUser (jwt_sign L \<lparr>user_id = u_id x, user_role = u_role x\<rparr>)
                         (u_id x) (u_name x) (u_email x) (u_role x)), d'))))"

definition register_route :: "(user \<Rightarrow> string list) \<Rightarrow> lib \<Rightarrow> db \<Rightarrow> req \<Rightarrow> response \<times> db" where
  "register_route V L = run_chain (register_checks L) (register V L)"

text \<open>
  routes/admin.js, \<open>isAdmin\<close>: the caller's stored role is looked up; anything thrown
  inside the try block is answered 500.
\<close>

definition isAdmin :: "lib \<Rightarrow> middleware" where
  "isAdmin L d r =
     (case req_user r of
        None \<Rightarrow> Respond (Response 500 (Message ''Erreur serveur''))
      | Some c \<Rightarrow>
          (case findById L u_id (users d) (user_id c) of
             Inl e \<Rightarrow> Respond (Response 500 (Message ''Erreur serveur''))
           | Inr None \<Rightarrow> Respond (Response 500 (Message ''Erreur serveur''))
           | Inr (Some x) \<Rightarrow>
               if u_role x \<noteq> ''admin''
               then Respond (Response 403 (Message
                      ''Acces refuse. Seuls les administrateurs peuvent effectuer cette action.''))
               else Next r))"

text \<open>PUT /api/admin/users/:userId/role\<close>

definition users_role_put :: "lib \<Rightarrow> handler" where
  "users_role_put L d r =
     (let role = body r ''role''; userId = param_id r in
      if \<not> (role \<in> set [Some (JStr ''client''), Some (JStr ''staff''), Some (JStr ''admin'')])
      then (Response 400 (Message ''Role invalide''), d)
      else
        (case findById L u_id (users d) userId of
           Inl e \<Rightarrow> (Response 500 (Message ''Erreur lors de la modification du role''), d)
         | Inr None \<Rightarrow> (Response 404 (Message ''Utilisateur non trouve''), d)
         | Inr (Some x) \<Rightarrow>
             (case req_user r of
                None \<Rightarrow> (Response 500 (Message ''Erreur lors de la modification du role''), d)
              | Some c \<Rightarrow>
                  if u_id x = user_id c \<and> role \<noteq> Some (JStr ''admin'')
                  then (Response 400 (Message ''Vous ne pouvez pas modifier votre propre role''), d)
                  else
                    (let x' = x\<lparr>u_role := str_or_empty L role\<rparr> in
                     case save_user x' d of
                       Inl e \<Rightarrow> (Response 500 (Message ''Erreur lors de la modification du role''), d)
                     | Inr d' \<Rightarrow> (Response 200 (MessageUser ''Role mis a jour avec succes'' x'), d')))))"

definition users_role_route :: "lib \<Rightarrow> db \<Rightarrow> req \<Rightarrow> response \<times> db" where
  "users_role_route L = run_chain [auth L, isAdmin L] (users_role_put L)"

section \<open>Statistics: routes/admin.js\<close>

text \<open>
  A JavaScript number is NaN, one of the two infinities (\<open>Infty True\<close> is +Infinity) or a
  finite value; the two zeros are not told apart. An operation on finite operands computes
  the exact result and rounds it to a double, which overflows to an infinity; the rounding
  \<open>rnd\<close> is a parameter. Dividing by zero raises nothing: it gives NaN or an infinity.
\<close>

datatype jsnum = NaN | Infty bool | Fin real

fun js_sub :: "(real \<Rightarrow> jsnum) \<Rightarrow> jsnum \<Rightarrow> jsnum \<Rightarrow> jsnum" where
  "js_sub rnd (Fin a) (Fin b) = rnd (a - b)"
| "js_sub rnd (Fin a) (Infty t) = Infty (\<not> t)"
| "js_sub rnd (Infty s) (Fin b) = Infty s"
| "js_sub rnd (Infty s) (Infty t) = (if s = t then NaN else Infty s)"
| "js_sub rnd NaN y = NaN"
| "js_sub rnd x NaN = NaN"

fun js_div :: "(real \<Rightarrow> jsnum) \<Rightarrow> jsnum \<Rightarrow> jsnum \<Rightarrow> jsnum" where
  "js_div rnd (Fin a) (Fin b) =
     (if b = 0 then (if a = 0 then NaN else Infty (0 < a)) else rnd (a / b))"
| "js_div rnd (Fin a) (Infty t) = Fin 0"
| "js_div rnd (Infty s) (Fin b) = Infty (s = (0 \<le> b))"
| "js_div rnd (Infty s) (Infty t) = NaN"
| "js_div rnd NaN y = NaN"
| "js_div rnd x NaN = NaN"

fun js_mul :: "(real \<Rightarrow> jsnum) \<Rightarrow> jsnum \<Rightarrow> jsnum \<Rightarrow> jsnum" where
  "js_mul rnd (Fin a) (Fin b) = rnd (a * b)"
| "js_mul rnd (Fin a) (Infty t) = (if a = 0 then NaN else Infty (t = (0 < a)))"
| "js_mul rnd (Infty s) (Fin b) = (if b = 0 then NaN else Infty (s = (0 < b)))"
| "js_mul rnd (Infty s) (Infty t) = Infty (s = t)"
| "js_mul rnd NaN y = NaN"
| "js_mul rnd x NaN = NaN"

text \<open>\<open>!x\<close> of a number: true of 0 and of NaN.\<close>

definition falsy :: "jsnum \<Rightarrow> bool" where
  "falsy x = (x = Fin 0 \<or> x = NaN)"

text \<open>
  \<open>calculateChange\<close> of GET /api/admin/stats: \<open>if (!previous) return 0\<close>, then the
  quotient in JavaScript arithmetic.
\<close>

definition calculateChange :: "(real \<Rightarrow> jsnum) \<Rightarrow> jsnum \<Rightarrow> jsnum \<Rightarrow> jsnum" where
  "calculateChange rnd current previous =
     (if falsy previous then Fin 0
      else js_mul rnd (js_div rnd (js_sub rnd current previous) previous) (Fin 100))"

text \<open>
  The window totals the route passes in: \<open>stats[0]?.total || 0\<close>, with the totals of the
  documents the aggregation returned (none when the window is empty).
\<close>

definition total_or_zero :: "jsnum list \<Rightarrow> jsnum" where
  "total_or_zero stats = (case stats of [] \<Rightarrow> Fin 0 | t # ts \<Rightarrow> if falsy t then Fin 0 else t)"

definition revenueChange :: "(real \<Rightarrow> jsnum) \<Rightarrow> jsnum list \<Rightarrow> jsnum list \<Rightarrow> jsnum" where
  "revenueChange rnd revenueStats previousRevenueStats =
     calculateChange rnd (total_or_zero revenueStats) (total_or_zero previousRevenueStats)"

section \<open>Sample data\<close>

text \<open>
  A concrete library, store and tokens for evaluating the routes. The sample validators are
  tables: they agree with validator.js and with \<open>Number\<close> on the strings used below and
  reject every other string.
\<close>

definition admin_claims :: claims where
  "admin_claims = \<lparr>user_id = ''aaaaaaaaaaaaaaaaaaaaaaa1'', user_role = ''admin''\<rparr>"

definition staff_claims :: claims where
  "staff_claims = \<lparr>user_id = ''bbbbbbbbbbbbbbbbbbbbbbb1'', user_role = ''staff''\<rparr>"

definition client_claims :: claims where
  "client_claims = \<lparr>user_id = ''ccccccccccccccccccccccc1'', user_role = ''client''\<rparr>"

definition sample_lib :: lib where
  "sample_lib =
     \<lparr> jwt_verify = map_of
         [(''token-admin'', Decoded (Some admin_claims)),
          (''token-staff'', Decoded (Some staff_claims)),
          (''token-client'', Decoded (Some client_claims))],
       jwt_sign = (\<lambda>c. ''signed:'' @ user_id c @ '':'' @ user_role c),
       bcrypt_hash = (\<lambda>p. ''hash:'' @ p),
       isEmail = (\<lambda>s. s \<in> set [''ada@example.com'', ''bob@example.com'']),
       isInt = (\<lambda>s lo hi. case map_of [(''1'', 1), (''2'', 2), (''3'', 3), (''10'', 10)] s of
                  None \<Rightarrow> False | Some n \<Rightarrow> lo \<le> n \<and> n \<le> hi),
       numToString = (\<lambda>n. if n = 2 then ''2'' else if n = 30 then ''30'' else ''1.5''),
       strToNum = map_of [(''2'', 2), (''30'', 30)],
       isObjectId = (\<lambda>s. length s = 24 \<and> list_all (\<lambda>c. c \<in> set ''0123456789abcdef'') s),
       new_oid = ''ddddddddddddddddddddddd9'',
       now = 1000,
       today = ''2025-01-01'' \<rparr>"

definition sample_admin :: user where
  "sample_admin =
     \<lparr> u_id = ''aaaaaaaaaaaaaaaaaaaaaaa1'', u_name = ''Root'', u_email = ''root@example.com'',
       u_password = ''hash:secret1'', u_role = ''admin'', u_salary = Some 3000 \<rparr>"

definition sample_client :: user where
  "sample_client =
     \<lparr> u_id = ''ccccccccccccccccccccccc1'', u_name = ''Cleo'', u_email = ''cleo@example.com'',
       u_password = ''hash:secret2'', u_role = ''client'', u_salary = None \<rparr>"

definition sample_item :: menuItem where
  "sample_item =
     \<lparr> m_id = ''eeeeeeeeeeeeeeeeeeeeeee1'', m_name = ''Tarte'', m_description = ''Tarte aux pommes'',
       m_price = 6, m_category = ''Desserts'', m_image = ''tarte.png'', m_available = False \<rparr>"

definition sample_order :: order where
  "sample_order =
     \<lparr> o_id = ''fffffffffffffffffffffff1'', o_user = ''ccccccccccccccccccccccc1'',
       o_items = [(''eeeeeeeeeeeeeeeeeeeeeee1'', 2)], o_totalAmount = 12,
       o_status = ''delivered'', o_createdAt = 500 \<rparr>"

definition sample_reservation :: reservation where
  "sample_reservation =
     \<lparr> r_id = ''1111111111111111111111a1'', r_name = Some ''Ada'', r_email = Some ''ada@example.com'',
       r_phone = Some ''0102030405'', r_date = Some ''2025-01-01'', r_time = Some ''19:00'',
       r_type = Some ''surPlace'', r_numberOfPeople = Some 2, r_address = None,
       r_specialRequests = None, r_totalAmount = Some 30, r_status = Some ''pending'',
       r_createdAt = 400 \<rparr>"

definition sample_db :: db where
  "sample_db =
     \<lparr> users = [sample_admin, sample_client], menuItems = [sample_item],
       orders = [sample_order], reservations = [sample_reservation] \<rparr>"

definition delivery_body :: jbody where
  "delivery_body =
     [''date'' \<mapsto> JStr ''2025-01-01'', ''time'' \<mapsto> JStr ''19:00'', ''guests'' \<mapsto> JStr ''2'',
      ''name'' \<mapsto> JStr ''Ada'', ''email'' \<mapsto> JStr ''ada@example.com'',
      ''phone'' \<mapsto> JStr ''0102030405'', ''type'' \<mapsto> JStr ''livraison'',
      ''totalAmount'' \<mapsto> JNum 30]"

definition empty_req :: req where
  "empty_req =
     \<lparr> header_token = None, param_id = [], body = Map.empty, req_user = None, verrors = [] \<rparr>"

section \<open>The token check and the role gate\<close>

text \<open>
  C1. A request that carries a valid token of a user whose role is not in the allowed set
  of a route guarded by \<open>auth\<close> and \<open>checkRole\<close> is answered 403 with the store unchanged,
  whatever its body and whatever follows the gate in the route (POST /api/menu for a client
  is an instance); when the role is in the set, the gate hands the request on as it
  received it.
\<close>

theorem checkRole_forbidden_or_next:
  assumes "header_token r = Some t" and "t \<noteq> []"
    and "jwt_verify L t = Some (Decoded (Some u))"
  shows "(user_role u \<notin> set roles \<longrightarrow>
            checkRole roles d (r\<lparr>req_user := Some u\<rparr>) =
              Respond (Response 403
                (Msg ''Acces refuse - Vous n'avez pas les permissions necessaires'')) \<and>
            run_chain (auth L # checkRole roles # ms) h d r =
              (Response 403
                (Msg ''Acces refuse - Vous n'avez pas les permissions necessaires''), d))
       \<and> (user_role u \<in> set roles \<longrightarrow>
            checkRole roles d (r\<lparr>req_user := Some u\<rparr>) = Next (r\<lparr>req_user := Some u\<rparr>) \<and>
            run_chain (auth L # checkRole roles # ms) h d r =
              run_chain ms h d (r\<lparr>req_user := Some u\<rparr>))
       \<and> (user_role u = ''client'' \<longrightarrow>
            run_chain (menu_post_guard L @ ms) h d r =
              (Response 403
                (Msg ''Acces refuse - Vous n'avez pas les permissions necessaires''), d))"
  using assms by (simp add: auth_def checkRole_def menu_post_guard_def)

theorem checkRole_forbidden_or_next_witness:
  "run_chain (menu_post_guard sample_lib @ [check sample_lib ''name'' ''Le nom est requis'' notEmpty])
      (menu_get sample_lib) sample_db (empty_req\<lparr>header_token := Some ''token-client''\<rparr>) =
     (Response 403 (Msg ''Acces refuse - Vous n'avez pas les permissions necessaires''), sample_db)
   \<and> run_chain [auth sample_lib, checkRole [''staff'', ''admin'']] (menu_get sample_lib) sample_db
        (empty_req\<lparr>header_token := Some ''token-staff''\<rparr>) =
     menu_get sample_lib sample_db
        (empty_req\<lparr>header_token := Some ''token-staff'', req_user := Some staff_claims\<rparr>)"
proof -
  have c: "jwt_verify sample_lib ''token-client'' = Some (Decoded (Some client_claims))"
    by (simp add: sample_lib_def)
  have s: "jwt_verify sample_lib ''token-staff'' = Some (Decoded (Some staff_claims))"
    by (simp add: sample_lib_def)
  have rc: "user_role client_claims = ''client''"
    by (simp add: client_claims_def)
  have rs: "user_role staff_claims \<in> set [''staff'', ''admin'']"
    by (simp add: staff_claims_def)
  have tc: "header_token (empty_req\<lparr>header_token := Some ''token-client''\<rparr>) = Some ''token-client''"
    by simp
  have ts: "header_token (empty_req\<lparr>header_token := Some ''token-staff''\<rparr>) = Some ''token-staff''"
    by simp
  have nc: "''token-client'' \<noteq> []" and ns: "''token-staff'' \<noteq> []"
    by simp_all
  have A: "run_chain (menu_post_guard sample_lib @ [check sample_lib ''name'' ''Le nom est requis'' notEmpty])
      (menu_get sample_lib) sample_db (empty_req\<lparr>header_token := Some ''token-client''\<rparr>) =
     (Response 403 (Msg ''Acces refuse - Vous n'avez pas les permissions necessaires''), sample_db)"
    using checkRole_forbidden_or_next [OF tc nc c] rc by blast
  have B: "run_chain (auth sample_lib # checkRole [''staff'', ''admin''] # []) (menu_get sample_lib)
      sample_db (empty_req\<lparr>header_token := Some ''token-staff''\<rparr>) =
     run_chain [] (menu_get sample_lib) sample_db
       (empty_req\<lparr>header_token := Some ''token-staff''\<rparr>\<lparr>req_user := Some staff_claims\<rparr>)"
    using checkRole_forbidden_or_next [OF ts ns s] rs by blast
  show ?thesis
    using A B by simp
qed

text \<open>
  C2. A request without the \<open>x-auth-token\<close> header (or with an empty one) to a route that
  starts with \<open>auth\<close> is answered 401; nothing behind \<open>auth\<close> runs: the answer is the same
  for every rest of the route and the store is unchanged. A token that \<open>jwt.verify\<close>
  rejects (bad signature, malformed payload, elapsed expiry) is answered 401 as well.
\<close>

theorem auth_unauthorized:
  "(header_token r = None \<or> header_token r = Some [] \<longrightarrow>
      auth L d r = Respond (Response 401 (Msg ''Pas de token, autorisation refusee'')) \<and>
      run_chain (auth L # ms) h d r =
        (Response 401 (Msg ''Pas de token, autorisation refusee''), d))
   \<and> (header_token r = Some t \<and> t \<noteq> [] \<and> jwt_verify L t = None \<longrightarrow>
      auth L d r = Respond (Response 401 (Msg ''Token non valide'')) \<and>
      run_chain (auth L # ms) h d r = (Response 401 (Msg ''Token non valide''), d))"
  by (auto simp add: auth_def)

theorem auth_unauthorized_witness:
  "orders_delete_route sample_lib sample_db (empty_req\<lparr>param_id := ''fffffffffffffffffffffff1''\<rparr>) =
     (Response 401 (Msg ''Pas de token, autorisation refusee''), sample_db)
   \<and> orders_delete_route sample_lib sample_db
       (empty_req\<lparr>header_token := Some ''forged'', param_id := ''fffffffffffffffffffffff1''\<rparr>) =
     (Response 401 (Msg ''Token non valide''), sample_db)"
proof -
  have n: "header_token (empty_req\<lparr>param_id := ''fffffffffffffffffffffff1''\<rparr>) = None"
    by (simp add: empty_req_def)
  have f: "header_token (empty_req\<lparr>header_token := Some ''forged'',
             param_id := ''fffffffffffffffffffffff1''\<rparr>) = Some ''forged''
           \<and> ''forged'' \<noteq> [] \<and> jwt_verify sample_lib ''forged'' = None"
    by (simp add: sample_lib_def)
  have A: "run_chain (auth sample_lib # []) (orders_delete sample_lib) sample_db
             (empty_req\<lparr>param_id := ''fffffffffffffffffffffff1''\<rparr>) =
           (Response 401 (Msg ''Pas de token, autorisation refusee''), sample_db)"
    using auth_unauthorized [where r = "empty_req\<lparr>param_id := ''fffffffffffffffffffffff1''\<rparr>"
        and L = sample_lib] n by blast
  have B: "run_chain (auth sample_lib # []) (orders_delete sample_lib) sample_db
             (empty_req\<lparr>header_token := Some ''forged'', param_id := ''fffffffffffffffffffffff1''\<rparr>) =
           (Response 401 (Msg ''Token non valide''), sample_db)"
    using auth_unauthorized [where r = "empty_req\<lparr>header_token := Some ''forged'',
        param_id := ''fffffffffffffffffffffff1''\<rparr>" and L = sample_lib and t = "''forged''"] f
    by blast
  show ?thesis
    using A B by (simp only: orders_delete_route_def)
qed

section \<open>Statistics\<close>

lemma js_div_zero_not_finite: "js_div rnd x (Fin 0) \<noteq> Fin y"
  by (cases x) simp_all

lemma js_mul_not_finite: "\<forall>y. x \<noteq> Fin y \<Longrightarrow> js_mul rnd x (Fin 100) \<noteq> Fin z"
  by (cases x) simp_all

lemma total_or_zero_not_NaN: "total_or_zero stats \<noteq> NaN"
  by (cases stats) (simp_all add: total_or_zero_def falsy_def)

text \<open>
  C8. With a previous-window total of 0 (for instance previous 0 and current 5)
  \<open>calculateChange\<close> returns 0, where the quotient itself would be NaN or an infinity and
  never a finite number; no arithmetic fault is raised either way. With any other previous
  total it returns \<open>((current - previous) / previous) * 100\<close> in JavaScript arithmetic. The
  totals the route passes in have gone through \<open>|| 0\<close> and are never NaN, so for them the
  two cases are previous = 0 and previous \<noteq> 0.
\<close>

theorem calculateChange_zero_previous:
  "calculateChange rnd current (Fin 0) = Fin 0
   \<and> calculateChange rnd (Fin 5) (Fin 0) = Fin 0
   \<and> js_mul rnd (js_div rnd (js_sub rnd current (Fin 0)) (Fin 0)) (Fin 100) \<noteq> Fin x
   \<and> (previous \<noteq> Fin 0 \<and> previous \<noteq> NaN \<longrightarrow>
        calculateChange rnd current previous =
          js_mul rnd (js_div rnd (js_sub rnd current previous) previous) (Fin 100))
   \<and> (total_or_zero previousRevenueStats = Fin 0 \<longrightarrow>
        revenueChange rnd revenueStats previousRevenueStats = Fin 0)
   \<and> (total_or_zero previousRevenueStats \<noteq> Fin 0 \<longrightarrow>
        revenueChange rnd revenueStats previousRevenueStats =
          js_mul rnd (js_div rnd (js_sub rnd (total_or_zero revenueStats)
            (total_or_zero previousRevenueStats)) (total_or_zero previousRevenueStats)) (Fin 100))"
proof -
  have guard: "calculateChange rnd c (Fin 0) = Fin 0" for c
    by (simp add: calculateChange_def falsy_def)
  have unguarded: "js_mul rnd (js_div rnd (js_sub rnd current (Fin 0)) (Fin 0)) (Fin 100) \<noteq> Fin x"
    by (intro js_mul_not_finite allI js_div_zero_not_finite)
  have formula: "calculateChange rnd current previous =
      js_mul rnd (js_div rnd (js_sub rnd current previous) previous) (Fin 100)"
    if "previous \<noteq> Fin 0" "previous \<noteq> NaN"
    using that by (simp add: calculateChange_def falsy_def)
  have zero: "revenueChange rnd revenueStats previousRevenueStats = Fin 0"
    if "total_or_zero previousRevenueStats = Fin 0"
    using that by (simp add: revenueChange_def guard)
  have nonzero: "revenueChange rnd revenueStats previousRevenueStats =
      js_mul rnd (js_div rnd (js_sub rnd (total_or_zero revenueStats)
        (total_or_zero previousRevenueStats)) (total_or_zero previousRevenueStats)) (Fin 100)"
    if "total_or_zero previousRevenueStats \<noteq> Fin 0"
    using that total_or_zero_not_NaN [of previousRevenueStats]
    by (simp add: revenueChange_def calculateChange_def falsy_def)
  show ?thesis
    using guard unguarded formula zero nonzero by blast
qed

theorem calculateChange_zero_previous_witness:
  "revenueChange Fin [Fin 15] [Fin 10] = Fin 50
   \<and> revenueChange Fin [Fin 5] [] = Fin 0
   \<and> calculateChange Fin (Fin 5) (Fin 0) = Fin 0
   \<and> js_mul Fin (js_div Fin (js_sub Fin (Fin 5) (Fin 0)) (Fin 0)) (Fin 100) = Infty True"
proof -
  have p: "total_or_zero [Fin 10] \<noteq> Fin 0" and z: "total_or_zero [] = Fin 0"
    and c: "total_or_zero [Fin 15] = Fin 15" and q: "total_or_zero [Fin 10] = Fin 10"
    by (simp_all add: total_or_zero_def falsy_def)
  have v: "js_mul Fin (js_div Fin (js_sub Fin (Fin 15) (Fin 10)) (Fin 10)) (Fin 100) = Fin 50"
    by simp
  have u: "js_mul Fin (js_div Fin (js_sub Fin (Fin 5) (Fin 0)) (Fin 0)) (Fin 100) = Infty True"
    by simp
  have A: "revenueChange Fin [Fin 15] [Fin 10] = Fin 50"
    using calculateChange_zero_previous [where rnd = Fin and revenueStats = "[Fin 15]"
        and previousRevenueStats = "[Fin 10]"] p c q v by simp
  have B: "revenueChange Fin [Fin 5] [] = Fin 0"
    using calculateChange_zero_previous [where rnd = Fin and revenueStats = "[Fin 5]"
        and previousRevenueStats = "[]"] z by blast
  have C: "calculateChange Fin (Fin 5) (Fin 0) = Fin 0"
    using calculateChange_zero_previous [where rnd = Fin] by blast
  show ?thesis
    using A B C u by blast
qed

section \<open>Lookup and replacement in a collection\<close>

lemma find_by_key: "find (\<lambda>y. key y = i) coll = Some x \<Longrightarrow> key x = i \<and> x \<in> set coll"
  by (induction coll) (auto split: if_splits)

lemma find_distinct_key:
  "distinct (map key coll) \<Longrightarrow> x \<in> set coll \<Longrightarrow> find (\<lambda>y. key y = key x) coll = Some x"
  by (induction coll) force+

lemma find_replace_doc:
  "find (\<lambda>y. key y = i) coll = Some x \<Longrightarrow> key x' = i \<Longrightarrow>
   find (\<lambda>y. key y = i) (replace_doc key x' coll) = Some x'"
  by (induction coll) (auto simp add: replace_doc_def split: if_splits)

lemma map_key_replace_doc: "map key (replace_doc key x coll) = map key coll"
  by (induction coll) (auto simp add: replace_doc_def)

lemma replace_doc_same_key:
  "y \<in> set (replace_doc key x coll) \<Longrightarrow> key y = key x \<Longrightarrow> y = x"
  by (induction coll) (auto simp add: replace_doc_def split: if_splits)

lemma auth_accepts:
  "header_token r = Some t \<Longrightarrow> t \<noteq> [] \<Longrightarrow> jwt_verify L t = Some (Decoded v) \<Longrightarrow>
   auth L d r = Next (r\<lparr>req_user := v\<rparr>)"
  by (simp add: auth_def)

lemma findById_replace_doc:
  assumes f: "findById L key coll i = Inr (Some x)" and k: "key x' = key x"
  shows "findById L key (replace_doc key x' coll) i = Inr (Some x')"
proof -
  from f have ok: "isObjectId L i" and fx: "find (\<lambda>y. key y = i) coll = Some x"
    by (auto simp add: findById_def split: if_splits)
  from find_by_key [OF fx] have "key x = i"
    by blast
  with fx ok k show ?thesis
    by (simp add: findById_def find_replace_doc)
qed

section \<open>The role gate without the token check\<close>

text \<open>
  C9, as the claim states it, fails for GET /api/reservations/all: the router reaches
  \<open>GET /:id\<close>, registered earlier, with \<open>id = all\<close>, and that route starts with \<open>auth\<close>;
  without a token the request is answered with the designed 401.
\<close>

theorem reservations_all_counterexample:
  "dispatch (reservations_router sample_lib)
     \<lparr>q_method = GET, q_path = [''all''], q_token = None, q_body = Map.empty\<rparr> sample_db =
   (Response 401 (Msg ''Pas de token, autorisation refusee''), sample_db)"
  by (simp add: reservations_router_def incoming_def auth_def)

text \<open>
  C9, amended. \<open>checkRole\<close> reads \<open>req.user.role\<close> with no test that \<open>req.user\<close> is set,
  and on a request as it comes in it throws. Every request to
  PATCH /api/reservations/:id/status, a route that mounts the gate without \<open>auth\<close>, with
  or without a valid token, is therefore answered by the error handler with 500 and leaves
  the store unchanged: neither 401 nor 403 nor the reservation. The middleware list
  registered for \<open>/all\<close> throws in the same way whenever it is run.
\<close>

theorem role_gate_without_auth:
  "checkRole roles d (incoming q i) = Throw TypeError
   \<and> (q_method q = PATCH \<and> q_path q = [i, ''status''] \<and> i \<noteq> [] \<longrightarrow>
        dispatch (reservations_router L) q d = (Response 500 (GlobalFault TypeError), d))
   \<and> run_chain [checkRole [''admin'', ''staff'']] (reservations_all L) d (incoming q i) =
        (Response 500 (GlobalFault TypeError), d)"
  by (simp add: checkRole_def incoming_def reservations_router_def error_handler_def)

theorem role_gate_without_auth_witness:
  "dispatch (reservations_router sample_lib)
     \<lparr>q_method = PATCH, q_path = [''1111111111111111111111a1'', ''status''],
      q_token = Some ''token-staff'', q_body = [''status'' \<mapsto> JStr ''confirmed'']\<rparr> sample_db =
   (Response 500 (GlobalFault TypeError), sample_db)"
  using role_gate_without_auth [where i = "''1111111111111111111111a1''" and L = sample_lib
      and d = sample_db
      and q = "\<lparr>q_method = PATCH, q_path = [''1111111111111111111111a1'', ''status''],
                 q_token = Some ''token-staff'', q_body = [''status'' \<mapsto> JStr ''confirmed'']\<rparr>"]
  by simp

section \<open>Cancelling an order\<close>

lemma orders_delete_other:
  "findById L o_id (orders d) (param_id r) = Inr (Some x) \<Longrightarrow> req_user r = Some u \<Longrightarrow>
   user_role u = ''client'' \<Longrightarrow> o_user x \<noteq> user_id u \<Longrightarrow>
   orders_delete L d r = (Response 403 (Msg ''Non autorise''), d)"
  by (simp add: orders_delete_def)

lemma order_errors_cancelled:
  "order_errors x = [] \<Longrightarrow> order_errors (x\<lparr>o_status := ''cancelled''\<rparr>) = []"
  by (simp add: order_errors_def split: if_splits)

lemma orders_delete_own:
  "findById L o_id (orders d) (param_id r) = Inr (Some x) \<Longrightarrow> req_user r = Some u \<Longrightarrow>
   o_user x = user_id u \<Longrightarrow> order_errors x = [] \<Longrightarrow>
   orders_delete L d r =
     (Response 200 (Msg ''Commande annulee''),
      d\<lparr>orders := replace_doc o_id (x\<lparr>o_status := ''cancelled''\<rparr>) (orders d)\<rparr>)"
  by (simp add: orders_delete_def save_order_def order_errors_cancelled)

lemma orders_delete_200_only:
  assumes "status (fst (orders_delete L d r)) = 200" and "req_user r = Some u"
    and "user_role u = ''client''"
  shows "\<exists>y. findById L o_id (orders d) (param_id r) = Inr (Some y) \<and> o_user y = user_id u"
proof (cases "findById L o_id (orders d) (param_id r)")
  case (Inl e)
  with assms show ?thesis
    by (simp add: orders_delete_def not_found_or_500_def split: if_splits)
next
  case (Inr v)
  show ?thesis
  proof (cases v)
    case None
    with Inr assms show ?thesis
      by (simp add: orders_delete_def)
  next
    case (Some y)
    with Inr assms show ?thesis
      by (cases "o_user y = user_id u") (simp_all add: orders_delete_def)
  qed
qed

text \<open>
  C6, as the claim states it, fails: the handler does not look at the order's status. A
  client cancels their own order that is already delivered.
\<close>

theorem orders_delete_counterexample:
  "o_status sample_order = ''delivered'' \<and>
   orders_delete_route sample_lib sample_db
     (empty_req\<lparr>header_token := Some ''token-client'', param_id := ''fffffffffffffffffffffff1''\<rparr>) =
   (Response 200 (Msg ''Commande annulee''),
    sample_db\<lparr>orders := [sample_order\<lparr>o_status := ''cancelled''\<rparr>]\<rparr>)"
  by (simp add: orders_delete_route_def orders_delete_def auth_def sample_lib_def empty_req_def
      findById_def sample_db_def sample_order_def client_claims_def save_order_def
      order_errors_def replace_doc_def)

text \<open>
  C6, amended. For a DELETE /api/orders/:id request by a client: on an order of another
  user the answer is 403 and the store is unchanged; on an order of their own (a stored
  order satisfies the schema), whatever its current status, the answer is 200, the status
  becomes cancelled and the order is still stored under its id; and an answer of 200 is
  given only on an order the client owns.
\<close>

theorem orders_delete_by_client:
  assumes "header_token r = Some t" and "t \<noteq> []"
    and "jwt_verify L t = Some (Decoded (Some u))" and "user_role u = ''client''"
  shows "(findById L o_id (orders d) (param_id r) = Inr (Some x) \<and> o_user x \<noteq> user_id u \<longrightarrow>
            orders_delete_route L d r = (Response 403 (Msg ''Non autorise''), d))
       \<and> (findById L o_id (orders d) (param_id r) = Inr (Some x) \<and> o_user x = user_id u \<and>
          order_errors x = [] \<longrightarrow>
            orders_delete_route L d r =
              (Response 200 (Msg ''Commande annulee''),
               d\<lparr>orders := replace_doc o_id (x\<lparr>o_status := ''cancelled''\<rparr>) (orders d)\<rparr>) \<and>
            findById L o_id (replace_doc o_id (x\<lparr>o_status := ''cancelled''\<rparr>) (orders d))
              (param_id r) = Inr (Some (x\<lparr>o_status := ''cancelled''\<rparr>)) \<and>
            map o_id (replace_doc o_id (x\<lparr>o_status := ''cancelled''\<rparr>) (orders d)) =
              map o_id (orders d))
       \<and> (status (fst (orders_delete_route L d r)) = 200 \<longrightarrow>
            (\<exists>y. findById L o_id (orders d) (param_id r) = Inr (Some y) \<and> o_user y = user_id u))"
proof -
  let ?r = "r\<lparr>req_user := Some u\<rparr>"
  have a: "auth L d r = Next ?r"
    using assms by (simp add: auth_accepts)
  have run: "orders_delete_route L d r = orders_delete L d ?r"
    by (simp add: orders_delete_route_def a)
  have u: "req_user ?r = Some u" and p: "param_id ?r = param_id r"
    by simp_all
  have c1: "orders_delete_route L d r = (Response 403 (Msg ''Non autorise''), d)"
    if "findById L o_id (orders d) (param_id r) = Inr (Some x)" "o_user x \<noteq> user_id u"
    unfolding run using that assms(4) u p by (intro orders_delete_other [where x = x and u = u]) simp_all
  have c2: "orders_delete_route L d r =
      (Response 200 (Msg ''Commande annulee''),
       d\<lparr>orders := replace_doc o_id (x\<lparr>o_status := ''cancelled''\<rparr>) (orders d)\<rparr>)"
    if "findById L o_id (orders d) (param_id r) = Inr (Some x)" "o_user x = user_id u"
      "order_errors x = []"
    unfolding run using that u p by (intro orders_delete_own [where u = u]) simp_all
  have c3: "findById L o_id (replace_doc o_id (x\<lparr>o_status := ''cancelled''\<rparr>) (orders d))
      (param_id r) = Inr (Some (x\<lparr>o_status := ''cancelled''\<rparr>))"
    if "findById L o_id (orders d) (param_id r) = Inr (Some x)"
    using that by (intro findById_replace_doc [where x = x]) simp_all
  have c4: "\<exists>y. findById L o_id (orders d) (param_id r) = Inr (Some y) \<and> o_user y = user_id u"
    if "status (fst (orders_delete_route L d r)) = 200"
    using orders_delete_200_only [of L d ?r u] that assms(4) unfolding run by simp
  show ?thesis
    using c1 c2 c3 c4 map_key_replace_doc [of o_id "x\<lparr>o_status := ''cancelled''\<rparr>" "orders d"]
    by blast
qed

theorem orders_delete_by_client_witness:
  "orders_delete_route sample_lib sample_db
     (empty_req\<lparr>header_token := Some ''token-client'', param_id := ''fffffffffffffffffffffff1''\<rparr>) =
   (Response 200 (Msg ''Commande annulee''),
    sample_db\<lparr>orders := replace_doc o_id (sample_order\<lparr>o_status := ''cancelled''\<rparr>) (orders sample_db)\<rparr>)
   \<and> orders_delete_route sample_lib (sample_db\<lparr>orders := [sample_order\<lparr>o_user := ''aaaaaaaaaaaaaaaaaaaaaaa1''\<rparr>]\<rparr>)
     (empty_req\<lparr>header_token := Some ''token-client'', param_id := ''fffffffffffffffffffffff1''\<rparr>) =
   (Response 403 (Msg ''Non autorise''),
    sample_db\<lparr>orders := [sample_order\<lparr>o_user := ''aaaaaaaaaaaaaaaaaaaaaaa1''\<rparr>]\<rparr>)"
proof -
  let ?r = "empty_req\<lparr>header_token := Some ''token-client'', param_id := ''fffffffffffffffffffffff1''\<rparr>"
  let ?d = "sample_db\<lparr>orders := [sample_order\<lparr>o_user := ''aaaaaaaaaaaaaaaaaaaaaaa1''\<rparr>]\<rparr>"
  have t: "header_token ?r = Some ''token-client''" and n: "''token-client'' \<noteq> []"
    and v: "jwt_verify sample_lib ''token-client'' = Some (Decoded (Some client_claims))"
    and c: "user_role client_claims = ''client''"
    by (simp_all add: sample_lib_def client_claims_def)
  have f: "findById sample_lib o_id (orders sample_db) (param_id ?r) = Inr (Some sample_order)"
    by (simp add: findById_def sample_lib_def sample_db_def sample_order_def)
  have f': "findById sample_lib o_id (orders ?d) (param_id ?r) =
      Inr (Some (sample_order\<lparr>o_user := ''aaaaaaaaaaaaaaaaaaaaaaa1''\<rparr>))"
    by (simp add: findById_def sample_lib_def sample_order_def)
  have own: "o_user sample_order = user_id client_claims" and ok: "order_errors sample_order = []"
    and other: "o_user (sample_order\<lparr>o_user := ''aaaaaaaaaaaaaaaaaaaaaaa1''\<rparr>) \<noteq> user_id client_claims"
    by (simp_all add: sample_order_def client_claims_def order_errors_def)
  have A: "orders_delete_route sample_lib sample_db ?r =
      (Response 200 (Msg ''Commande annulee''),
       sample_db\<lparr>orders := replace_doc o_id (sample_order\<lparr>o_status := ''cancelled''\<rparr>) (orders sample_db)\<rparr>)"
    using orders_delete_by_client [OF t n v c, of sample_db sample_order] f own ok by blast
  have B: "orders_delete_route sample_lib ?d ?r = (Response 403 (Msg ''Non autorise''), ?d)"
    using orders_delete_by_client [OF t n v c, of ?d "sample_order\<lparr>o_user := ''aaaaaaaaaaaaaaaaaaaaaaa1''\<rparr>"]
      f' other by blast
  show ?thesis
    using A B by blast
qed

section \<open>Changing a user's role\<close>

lemma isAdmin_accepts:
  "req_user r = Some c \<Longrightarrow> findById L u_id (users d) (user_id c) = Inr (Some x) \<Longrightarrow>
   u_role x = ''admin'' \<Longrightarrow> isAdmin L d r = Next r"
  by (simp add: isAdmin_def)

lemma users_role_put_invalid:
  "body r ''role'' \<notin> set [Some (JStr ''client''), Some (JStr ''staff''), Some (JStr ''admin'')] \<Longrightarrow>
   users_role_put L d r = (Response 400 (Message ''Role invalide''), d)"
  by (simp add: users_role_put_def)

lemma users_role_put_self:
  assumes "req_user r = Some c" and "findById L u_id (users d) (param_id r) = Inr (Some x)"
    and "param_id r = user_id c" and "body r ''role'' \<noteq> Some (JStr ''admin'')"
  shows "status (fst (users_role_put L d r)) = 400 \<and> snd (users_role_put L d r) = d"
proof -
  from assms(2) have fx: "find (\<lambda>y. u_id y = param_id r) (users d) = Some x"
    by (auto simp add: findById_def split: if_splits)
  from find_by_key [OF fx] assms(3) have self: "u_id x = user_id c"
    by simp
  show ?thesis
  proof (cases "body r ''role'' \<in> set [Some (JStr ''client''), Some (JStr ''staff''), Some (JStr ''admin'')]")
    case False
    then show ?thesis
      by (simp add: users_role_put_invalid)
  next
    case True
    with assms self show ?thesis
      by (auto simp add: users_role_put_def Let_def)
  qed
qed

text \<open>
  C10. For a PUT /api/admin/users/:userId/role request of an acting admin (a valid token
  whose user is stored with the role admin): when the target is the admin themselves and
  the requested role is not admin, the answer is 400 and the store, hence the stored role,
  is unchanged; a requested role outside client, staff and admin is answered 400 as well,
  and the handler gives that answer on every store, before it looks the target up.
\<close>

theorem users_role_put_rejections:
  assumes "header_token r = Some t" and "t \<noteq> []"
    and "jwt_verify L t = Some (Decoded (Some c))"
    and "findById L u_id (users d) (user_id c) = Inr (Some x)" and "u_role x = ''admin''"
  shows "(param_id r = user_id c \<and> body r ''role'' \<noteq> Some (JStr ''admin'') \<longrightarrow>
            status (fst (users_role_route L d r)) = 400 \<and> snd (users_role_route L d r) = d)
       \<and> (body r ''role'' \<notin> set [Some (JStr ''client''), Some (JStr ''staff''), Some (JStr ''admin'')] \<longrightarrow>
            users_role_route L d r = (Response 400 (Message ''Role invalide''), d))
       \<and> (body r' ''role'' \<notin> set [Some (JStr ''client''), Some (JStr ''staff''), Some (JStr ''admin'')] \<longrightarrow>
            users_role_put L d' r' = (Response 400 (Message ''Role invalide''), d'))"
proof -
  let ?r = "r\<lparr>req_user := Some c\<rparr>"
  have a: "auth L d r = Next ?r"
    using assms(1-3) by (simp add: auth_accepts)
  have b: "isAdmin L d ?r = Next ?r"
    using assms(4,5) by (intro isAdmin_accepts [where c = c and x = x]) simp_all
  have run: "users_role_route L d r = users_role_put L d ?r"
    by (simp add: users_role_route_def a b)
  have c1: "status (fst (users_role_route L d r)) = 400 \<and> snd (users_role_route L d r) = d"
    if "param_id r = user_id c" "body r ''role'' \<noteq> Some (JStr ''admin'')"
    unfolding run using that assms(4)
    by (intro users_role_put_self [where c = c and x = x]) simp_all
  have c2: "users_role_route L d r = (Response 400 (Message ''Role invalide''), d)"
    if "body r ''role'' \<notin> set [Some (JStr ''client''), Some (JStr ''staff''), Some (JStr ''admin'')]"
    unfolding run using that by (intro users_role_put_invalid) simp
  show ?thesis
    using c1 c2 users_role_put_invalid [of r' L d'] by blast
qed

theorem users_role_put_rejections_witness:
  "users_role_route sample_lib sample_db
     (empty_req\<lparr>header_token := Some ''token-admin'', param_id := ''aaaaaaaaaaaaaaaaaaaaaaa1'',
                body := [''role'' \<mapsto> JStr ''client'']\<rparr>) =
     (Response 400 (Message ''Vous ne pouvez pas modifier votre propre role''), sample_db)
   \<and> users_role_route sample_lib sample_db
     (empty_req\<lparr>header_token := Some ''token-admin'', param_id := ''ccccccccccccccccccccccc1'',
                body := [''role'' \<mapsto> JStr ''owner'']\<rparr>) =
     (Response 400 (Message ''Role invalide''), sample_db)"
proof -
  let ?r = "empty_req\<lparr>header_token := Some ''token-admin'', param_id := ''aaaaaaaaaaaaaaaaaaaaaaa1'',
                body := [''role'' \<mapsto> JStr ''client'']\<rparr>"
  let ?q = "empty_req\<lparr>header_token := Some ''token-admin'', param_id := ''ccccccccccccccccccccccc1'',
                body := [''role'' \<mapsto> JStr ''owner'']\<rparr>"
  have t: "header_token ?r = Some ''token-admin''" and tq: "header_token ?q = Some ''token-admin''"
    and n: "''token-admin'' \<noteq> []"
    and v: "jwt_verify sample_lib ''token-admin'' = Some (Decoded (Some admin_claims))"
    by (simp_all add: sample_lib_def)
  have f: "findById sample_lib u_id (users sample_db) (user_id admin_claims) = Inr (Some sample_admin)"
    by (simp add: findById_def sample_lib_def sample_db_def sample_admin_def admin_claims_def)
  have adm: "u_role sample_admin = ''admin''"
    by (simp add: sample_admin_def)
  have self: "param_id ?r = user_id admin_claims \<and> body ?r ''role'' \<noteq> Some (JStr ''admin'')"
    by (simp add: admin_claims_def)
  have inv: "body ?q ''role'' \<notin> set [Some (JStr ''client''), Some (JStr ''staff''), Some (JStr ''admin'')]"
    by simp
  have A: "status (fst (users_role_route sample_lib sample_db ?r)) = 400 \<and>
           snd (users_role_route sample_lib sample_db ?r) = sample_db"
    using users_role_put_rejections [OF t n v f adm] self by blast
  have B: "users_role_route sample_lib sample_db ?q = (Response 400 (Message ''Role invalide''), sample_db)"
    using users_role_put_rejections [OF tq n v f adm] inv by blast
  have C: "fst (users_role_route sample_lib sample_db ?r) =
           Response 400 (Message ''Vous ne pouvez pas modifier votre propre role'')"
    by (simp add: users_role_route_def users_role_put_def auth_def isAdmin_def findById_def
        sample_lib_def sample_db_def sample_admin_def sample_client_def admin_claims_def empty_req_def)
  show ?thesis
    using A B C by (simp add: prod_eq_iff)
qed

section \<open>Soft deletion of menu items\<close>

lemma findById_member:
  "distinct (map key coll) \<Longrightarrow> x \<in> set coll \<Longrightarrow> isObjectId L (key x) \<Longrightarrow>
   findById L key coll (key x) = Inr (Some x)"
  by (simp add: findById_def find_distinct_key)

lemma distinct_key_unique:
  "distinct (map key coll) \<Longrightarrow> x \<in> set coll \<Longrightarrow> y \<in> set coll \<Longrightarrow> key y = key x \<Longrightarrow> y = x"
  by (metis distinct_map inj_on_def)

lemma menu_delete_found:
  "findById L m_id (menuItems d) (param_id r) = Inr (Some m) \<Longrightarrow> menuItem_errors m = [] \<Longrightarrow>
   menu_delete L d r =
     (Response 200 (Msg ''Element supprime du menu''),
      d\<lparr>menuItems := replace_doc m_id (m\<lparr>m_available := False\<rparr>) (menuItems d)\<rparr>)"
  by (simp add: menu_delete_def save_menuItem_def menuItem_errors_def)

text \<open>
  C5. In a store whose menu items have distinct ids, a soft-deleted item (one with
  \<open>available = false\<close>) is not in the list GET /api/menu returns, and no listed item has
  its id, while the lookup by id that the menu routes use still returns it. DELETE
  /api/menu/:id produces that state: it answers 200, the item stays stored under its id
  with \<open>available = false\<close>, and GET /api/menu no longer lists it.
\<close>

theorem soft_deleted_menu_item:
  assumes "distinct (map m_id (menuItems d))" and "m \<in> set (menuItems d)"
    and "isObjectId L (m_id m)"
  shows "(\<not> m_available m \<longrightarrow>
            (\<exists>ms. menu_get L d r = (Response 200 (MenuItems ms), d) \<and>
                  m \<notin> set ms \<and> m_id m \<notin> m_id ` set ms) \<and>
            findById L m_id (menuItems d) (m_id m) = Inr (Some m))
       \<and> (param_id q = m_id m \<and> menuItem_errors m = [] \<longrightarrow>
            (\<exists>d'. menu_delete L d q = (Response 200 (Msg ''Element supprime du menu''), d') \<and>
                  findById L m_id (menuItems d') (m_id m) = Inr (Some (m\<lparr>m_available := False\<rparr>)) \<and>
                  (\<exists>ms. menu_get L d' r = (Response 200 (MenuItems ms), d') \<and>
                        m_id m \<notin> m_id ` set ms)))"
proof -
  let ?sorted = "\<lambda>e. sort_key (\<lambda>m. (m_category m, m_name m)) (filter m_available (menuItems e))"
  have found: "findById L m_id (menuItems d) (m_id m) = Inr (Some m)"
    using assms by (rule findById_member)
  have c1: "\<exists>ms. menu_get L d r = (Response 200 (MenuItems ms), d) \<and>
                 m \<notin> set ms \<and> m_id m \<notin> m_id ` set ms"
    if un: "\<not> m_available m"
  proof (intro exI [of _ "?sorted d"] conjI)
    show "menu_get L d r = (Response 200 (MenuItems (?sorted d)), d)"
      by (simp add: menu_get_def)
    show "m \<notin> set (?sorted d)"
      using un by simp
    show "m_id m \<notin> m_id ` set (?sorted d)"
    proof
      assume "m_id m \<in> m_id ` set (?sorted d)"
      then obtain y where y: "y \<in> set (menuItems d)" "m_available y" "m_id y = m_id m"
        by auto
      with assms(1,2) have "y = m"
        by (intro distinct_key_unique [where key = m_id and coll = "menuItems d"]) simp_all
      with y un show False
        by simp
    qed
  qed
  have c2: "\<exists>d'. menu_delete L d q = (Response 200 (Msg ''Element supprime du menu''), d') \<and>
                 findById L m_id (menuItems d') (m_id m) = Inr (Some (m\<lparr>m_available := False\<rparr>)) \<and>
                 (\<exists>ms. menu_get L d' r = (Response 200 (MenuItems ms), d') \<and>
                       m_id m \<notin> m_id ` set ms)"
    if p: "param_id q = m_id m" and ok: "menuItem_errors m = []"
  proof -
    let ?m = "m\<lparr>m_available := False\<rparr>"
    let ?d = "d\<lparr>menuItems := replace_doc m_id ?m (menuItems d)\<rparr>"
    have del: "menu_delete L d q = (Response 200 (Msg ''Element supprime du menu''), ?d)"
      using found p ok by (intro menu_delete_found) simp_all
    have look: "findById L m_id (menuItems ?d) (m_id m) = Inr (Some ?m)"
      using findById_replace_doc [OF found, of ?m] by simp
    have get: "menu_get L ?d r = (Response 200 (MenuItems (?sorted ?d)), ?d)"
      by (simp add: menu_get_def)
    have gone: "m_id m \<notin> m_id ` set (?sorted ?d)"
    proof
      assume "m_id m \<in> m_id ` set (?sorted ?d)"
      then obtain y where y: "y \<in> set (replace_doc m_id ?m (menuItems d))" "m_available y"
          "m_id y = m_id m"
        by auto
      from y(1,3) have "y = ?m"
        by (intro replace_doc_same_key [where key = m_id and coll = "menuItems d"]) simp_all
      with y(2) show False
        by simp
    qed
    from del look get gone show ?thesis
      by blast
  qed
  show ?thesis
    using c1 c2 found by blast
qed

theorem soft_deleted_menu_item_witness:
  "(\<exists>ms. menu_get sample_lib sample_db empty_req = (Response 200 (MenuItems ms), sample_db) \<and>
         sample_item \<notin> set ms)
   \<and> findById sample_lib m_id (menuItems sample_db) ''eeeeeeeeeeeeeeeeeeeeeee1'' = Inr (Some sample_item)
   \<and> (\<exists>d'. menu_delete sample_lib sample_db (empty_req\<lparr>param_id := ''eeeeeeeeeeeeeeeeeeeeeee1''\<rparr>) =
              (Response 200 (Msg ''Element supprime du menu''), d'))"
proof -
  have h: "distinct (map m_id (menuItems sample_db))" "sample_item \<in> set (menuItems sample_db)"
    "isObjectId sample_lib (m_id sample_item)"
    by (simp_all add: sample_db_def sample_lib_def sample_item_def)
  have u: "\<not> m_available sample_item" and i: "m_id sample_item = ''eeeeeeeeeeeeeeeeeeeeeee1''"
    and ok: "menuItem_errors sample_item = []"
    and p: "param_id (empty_req\<lparr>param_id := ''eeeeeeeeeeeeeeeeeeeeeee1''\<rparr>) = m_id sample_item"
    by (simp_all add: sample_item_def menuItem_errors_def)
  show ?thesis
    using soft_deleted_menu_item [OF h, of empty_req "empty_req\<lparr>param_id := ''eeeeeeeeeeeeeeeeeeeeeee1''\<rparr>"]
      u ok p unfolding i by blast
qed

section \<open>Creating a reservation\<close>

lemma reservation_errors_address:
  "b ''type'' = Some (JStr ''livraison'') \<Longrightarrow> b ''address'' = None \<Longrightarrow>
   ''address'' \<in> set (reservation_errors (new_Reservation L b))"
  by (simp add: reservation_errors_def new_Reservation_def cast_str_path_def missing_str_def)

lemma save_new_reservation_address:
  assumes "b ''type'' = Some (JStr ''livraison'')" and "b ''address'' = None"
  shows "\<exists>errs. save_new_reservation L b d = Inl (ValidationError errs) \<and> ''address'' \<in> set errs"
proof -
  let ?errs = "cast_errors L b @ reservation_errors (new_Reservation L b)"
  have "''address'' \<in> set ?errs"
    using reservation_errors_address [OF assms] by simp
  moreover from this have "?errs \<noteq> []"
    by auto
  ultimately show ?thesis
    by (auto simp add: save_new_reservation_def Let_def)
qed

lemma reservations_new_without_address:
  assumes "body r ''type'' = Some (JStr ''livraison'')" and "body r ''address'' = None"
  shows "\<exists>errs. reservations_new L d r = (Response 400 (ErrMessage (ValidationError errs)), d) \<and>
               ''address'' \<in> set errs"
  using save_new_reservation_address [OF assms, of L d] by (auto simp add: reservations_new_def)

lemma check_step:
  "\<exists>e. check L f msg ok d r = Next (r\<lparr>verrors := verrors r @ e\<rparr>) \<and> fst ` set e \<subseteq> {f}"
proof (cases "ok (vstring L (body r f))")
  case True
  then have "check L f msg ok d r = Next (r\<lparr>verrors := verrors r @ []\<rparr>)"
    by (simp add: check_def)
  then show ?thesis
    by (intro exI [of _ "[]"]) simp
next
  case False
  then have "check L f msg ok d r = Next (r\<lparr>verrors := verrors r @ [(f, msg)]\<rparr>)"
    by (simp add: check_def)
  then show ?thesis
    by (intro exI [of _ "[(f, msg)]"]) simp
qed

lemma run_checks:
  "\<exists>e. run_chain (map (\<lambda>(f, msg, ok). check L f msg ok) specs) h d r =
         h d (r\<lparr>verrors := verrors r @ e\<rparr>) \<and>
       fst ` set e \<subseteq> fst ` set specs"
proof (induction specs arbitrary: r)
  case Nil
  have "run_chain [] h d r = h d (r\<lparr>verrors := verrors r @ []\<rparr>)"
    by simp
  then show ?case
    by (intro exI [of _ "[]"]) simp
next
  case (Cons spec specs)
  obtain f msg ok where spec: "spec = (f, msg, ok)"
    by (cases spec)
  obtain e1 where e1: "check L f msg ok d r = Next (r\<lparr>verrors := verrors r @ e1\<rparr>)"
      "fst ` set e1 \<subseteq> {f}"
    using check_step by blast
  obtain e2 where e2: "run_chain (map (\<lambda>(f, msg, ok). check L f msg ok) specs) h d
        (r\<lparr>verrors := verrors r @ e1\<rparr>) =
      h d (r\<lparr>verrors := verrors r @ e1\<rparr>\<lparr>verrors := verrors (r\<lparr>verrors := verrors r @ e1\<rparr>) @ e2\<rparr>)"
      "fst ` set e2 \<subseteq> fst ` set specs"
    using Cons.IH by blast
  have "run_chain (map (\<lambda>(f, msg, ok). check L f msg ok) (spec # specs)) h d r =
      h d (r\<lparr>verrors := verrors r @ (e1 @ e2)\<rparr>)"
    using spec e1(1) e2(1) by simp
  moreover have "fst ` set (e1 @ e2) \<subseteq> fst ` set (spec # specs)"
    using e1(2) e2(2) spec by auto
  ultimately show ?case
    by blast
qed

lemma reservations_post_checks_run:
  "\<exists>e. run_chain (reservations_post_checks L) h d r = h d (r\<lparr>verrors := verrors r @ e\<rparr>) \<and>
       ''address'' \<notin> fst ` set e"
proof -
  let ?specs = "[(''date'', ''La date est requise'', notEmpty),
      (''time'', ''L'heure est requise'', notEmpty),
      (''guests'', ''Le nombre de personnes est requis'', \<lambda>s. isInt L s 1 10),
      (''name'', ''Le nom est requis'', notEmpty),
      (''email'', ''Email invalide'', isEmail L),
      (''phone'', ''Le numero de telephone est requis'', notEmpty)]"
  have eq: "reservations_post_checks L = map (\<lambda>(f, msg, ok). check L f msg ok) ?specs"
    by (simp add: reservations_post_checks_def)
  obtain e where e: "run_chain (reservations_post_checks L) h d r = h d (r\<lparr>verrors := verrors r @ e\<rparr>)"
    "fst ` set e \<subseteq> fst ` set ?specs"
    unfolding eq using run_checks by blast
  have "''address'' \<notin> fst ` set ?specs"
    by simp
  with e show ?thesis
    by blast
qed

lemma reservations_post_without_address:
  assumes "body r ''type'' = Some (JStr ''livraison'')" and "body r ''address'' = None"
    and "verrors r = []"
  shows "\<exists>errs. run_chain (reservations_post_checks L) (reservations_post L) d r =
           (if errs \<noteq> [] then Response 400 (Errors errs) else Response 500 (Text ''Erreur serveur''), d)
         \<and> ''address'' \<notin> fst ` set errs"
proof -
  obtain e where e: "run_chain (reservations_post_checks L) (reservations_post L) d r =
      reservations_post L d (r\<lparr>verrors := verrors r @ e\<rparr>)" "''address'' \<notin> fst ` set e"
    using reservations_post_checks_run by blast
  obtain errs where "save_new_reservation L (body r) d = Inl (ValidationError errs)"
    using save_new_reservation_address [OF assms(1,2)] by blast
  then have "reservations_post L d (r\<lparr>verrors := verrors r @ e\<rparr>) =
      (if e \<noteq> [] then Response 400 (Errors e) else Response 500 (Text ''Erreur serveur''), d)"
    using assms(3) by (simp add: reservations_post_def)
  with e show ?thesis
    by auto
qed

text \<open>
  C3. The claim asks for 400 with a validation error naming \<open>address\<close>. On the request
  below (POST /api/reservations, every field the route checks valid, type livraison, no
  address) the route answers 500: its own checks do not look at \<open>address\<close>, the schema
  rejects the document at \<open>save()\<close>, and the catch block turns that into
  \<open>Erreur serveur\<close>. No reservation is stored. The lemmas above give the general picture:
  on such a body POST /api/reservations never names \<open>address\<close>, and
  POST /api/reservations/new answers 400 with the validation error that names it.
\<close>

theorem reservations_post_delivery_without_address:
  "delivery_body ''type'' = Some (JStr ''livraison'') \<and> delivery_body ''address'' = None \<and>
   dispatch (reservations_router sample_lib)
     \<lparr>q_method = POST, q_path = [], q_token = None, q_body = delivery_body\<rparr> sample_db =
   (Response 500 (Text ''Erreur serveur''), sample_db)"
proof -
  have t: "delivery_body ''type'' = Some (JStr ''livraison'')" and a: "delivery_body ''address'' = None"
    by (simp_all add: delivery_body_def)
  let ?r = "incoming \<lparr>q_method = POST, q_path = [], q_token = None, q_body = delivery_body\<rparr> []"
  have ok: "vstring sample_lib (delivery_body ''date'') \<noteq> []"
      "vstring sample_lib (delivery_body ''time'') \<noteq> []"
      "isInt sample_lib (vstring sample_lib (delivery_body ''guests'')) 1 10"
      "vstring sample_lib (delivery_body ''name'') \<noteq> []"
      "isEmail sample_lib (vstring sample_lib (delivery_body ''email''))"
      "vstring sample_lib (delivery_body ''phone'') \<noteq> []"
    by (simp_all add: delivery_body_def sample_lib_def)
  have checks: "run_chain (reservations_post_checks sample_lib) (reservations_post sample_lib) sample_db ?r =
      reservations_post sample_lib sample_db ?r"
    using ok by (simp add: reservations_post_checks_def check_def notEmpty_def incoming_def)
  obtain errs where "save_new_reservation sample_lib (body ?r) sample_db = Inl (ValidationError errs)"
    using save_new_reservation_address [of "body ?r" sample_lib sample_db] t a
    by (auto simp add: incoming_def)
  then have "reservations_post sample_lib sample_db ?r = (Response 500 (Text ''Erreur serveur''), sample_db)"
    by (simp add: reservations_post_def incoming_def)
  with checks t a show ?thesis
    by (simp add: reservations_router_def)
qed

section \<open>The status of a stored reservation\<close>

lemma save_new_reservation_status:
  assumes "save_new_reservation L b d = Inr (x, d')"
  shows "\<exists>s. r_status x = Some s \<and> s \<in> set reservation_status_enum"
proof -
  let ?r = "new_Reservation L b"
  from assms have none: "cast_errors L b @ reservation_errors ?r = []" and x: "x = ?r"
    by (auto simp add: save_new_reservation_def Let_def split: if_splits sum.splits)
  obtain s where s: "r_status ?r = Some s"
    by (cases "b ''status''") (simp_all add: new_Reservation_def)
  from none have "reservation_errors ?r = []"
    by simp
  then have "\<not> (\<exists>s \<in> set_option (r_status ?r). s \<notin> set reservation_status_enum)"
    unfolding reservation_errors_def by (auto split: if_splits)
  with s x show ?thesis
    by simp
qed

text \<open>
  C7. The claim asks that a stored status stays among pending, confirmed, rejected,
  delivered and completed. A reservation that is saved as a new document satisfies this
  (lemma above), but PUT /api/reservations/:id checks the status against pending, confirmed
  and cancelled and updates without the schema's validators: a staff member's request with
  status cancelled is answered 200 and stores cancelled, which the schema's enum does not
  contain.
\<close>

theorem reservations_put_cancelled:
  "dispatch (reservations_router sample_lib)
     \<lparr>q_method = PUT, q_path = [''1111111111111111111111a1''], q_token = Some ''token-staff'',
      q_body = [''status'' \<mapsto> JStr ''cancelled'']\<rparr> sample_db =
   (Response 200 (OneReservation (sample_reservation\<lparr>r_status := Some ''cancelled''\<rparr>)),
    sample_db\<lparr>reservations := [sample_reservation\<lparr>r_status := Some ''cancelled''\<rparr>]\<rparr>)
   \<and> ''cancelled'' \<notin> set reservation_status_enum"
proof -
  let ?b = "[''status'' \<mapsto> JStr ''cancelled'']"
  let ?q = "\<lparr>q_method = PUT, q_path = [''1111111111111111111111a1''], q_token = Some ''token-staff'',
      q_body = ?b\<rparr>"
  let ?r = "incoming ?q ''1111111111111111111111a1''"
  let ?r' = "?r\<lparr>req_user := Some staff_claims\<rparr>"
  have a: "auth sample_lib sample_db ?r = Next ?r'"
    by (intro auth_accepts [where t = "''token-staff''"]) (simp_all add: incoming_def sample_lib_def)
  have g: "checkRole [''staff'', ''admin''] sample_db ?r' = Next ?r'"
    by (simp add: checkRole_def staff_claims_def)
  have c: "check sample_lib ''status'' ''Le statut est requis''
             (isIn [''pending'', ''confirmed'', ''cancelled'']) sample_db ?r' = Next ?r'"
    by (simp add: check_def isIn_def incoming_def)
  have chain: "run_chain (reservations_put_checks sample_lib) (reservations_put sample_lib) sample_db ?r =
      reservations_put sample_lib sample_db ?r'"
    by (simp add: reservations_put_checks_def a g c)
  have f: "findById sample_lib r_id (reservations sample_db) ''1111111111111111111111a1'' =
      Inr (Some sample_reservation)"
    by (simp add: findById_def sample_lib_def sample_db_def sample_reservation_def)
  have ce: "update_cast_error sample_lib ?b = None"
    by (simp add: update_cast_error_def cast_num_path_def)
  have s: "set_reservation sample_lib ?b sample_reservation =
      sample_reservation\<lparr>r_status := Some ''cancelled''\<rparr>"
    by (simp add: set_reservation_def set_str_def set_num_def sample_reservation_def)
  have u: "findByIdAndUpdate_reservation sample_lib ''1111111111111111111111a1'' ?b sample_db =
      Inr (Some (sample_reservation\<lparr>r_status := Some ''cancelled''\<rparr>),
           sample_db\<lparr>reservations := [sample_reservation\<lparr>r_status := Some ''cancelled''\<rparr>]\<rparr>)"
    unfolding findByIdAndUpdate_reservation_def f ce Let_def
    by (simp add: s replace_doc_def sample_db_def)
  have h: "reservations_put sample_lib sample_db ?r' =
      (Response 200 (OneReservation (sample_reservation\<lparr>r_status := Some ''cancelled''\<rparr>)),
       sample_db\<lparr>reservations := [sample_reservation\<lparr>r_status := Some ''cancelled''\<rparr>]\<rparr>)"
    using u by (simp add: reservations_put_def incoming_def)
  have d: "dispatch (reservations_router sample_lib) ?q sample_db =
      run_chain (reservations_put_checks sample_lib) (reservations_put sample_lib) sample_db ?r"
    by (simp add: reservations_router_def)
  show ?thesis
    unfolding d chain h by (simp add: reservation_status_enum_def)
qed

section \<open>Registration\<close>

lemma register_checks_pass:
  assumes "body r ''name'' = Some (JStr n)" and "n \<noteq> []"
    and "body r ''email'' = Some (JStr e)" and "isEmail L e"
    and "body r ''password'' = Some (JStr p)" and "6 \<le> length p"
  shows "register_route V L d r = register V L d r"
  using assms by (simp add: register_route_def register_checks_def check_def notEmpty_def isLength_min_def)

lemma register_saves:
  assumes "body r ''name'' = Some (JStr n)" and "body r ''email'' = Some (JStr e)"
    and "body r ''password'' = Some (JStr p)" and "verrors r = []"
    and "find (\<lambda>x. u_email x = e) (users d) = None"
    and "role = (case body r ''role'' of None \<Rightarrow> ''client'' | Some j \<Rightarrow> castString L j)"
  shows "register V L d r =
      (case save_new_user V L
              \<lparr>u_id = new_oid L, u_name = n, u_email = e, u_password = p, u_role = role,
                u_salary = None\<rparr> d of
         Inl err \<Rightarrow> (Response 500 (Text ''Erreur serveur''), d)
       | Inr (x, d') \<Rightarrow>
           (Response 200 (TokenUser (jwt_sign L \<lparr>user_id = u_id x, user_role = u_role x\<rparr>)
              (u_id x) (u_name x) (u_email x) (u_role x)), d'))"
proof -
  have "castString L (case body r ''role'' of None \<Rightarrow> JStr ''client'' | Some j \<Rightarrow> j) = role"
    using assms(6) by (simp split: option.splits)
  with assms(1-5) show ?thesis
    by (simp add: register_def str_or_empty_def Let_def)
qed

lemma user_errors_register:
  "n \<noteq> [] \<Longrightarrow> e \<noteq> [] \<Longrightarrow> p \<noteq> [] \<Longrightarrow>
   user_errors \<lparr>u_id = i, u_name = n, u_email = e, u_password = p, u_role = role, u_salary = None\<rparr> = []
     \<longleftrightarrow> role = ''client''"
  by (auto simp add: user_errors_def)

text \<open>
  C4, as the claim states it, fails for the roles admin and staff under the user schema of
  the spec: \<open>register\<close> passes the role of the body on, but never a salary, which that
  schema requires for these roles (routes/staff.js, the route that creates staff, sends
  one); \<open>save()\<close> rejects the document, the route answers 500 and no user is created.
\<close>

theorem register_admin_counterexample:
  "register_route user_errors sample_lib sample_db
     (empty_req\<lparr>body := [''name'' \<mapsto> JStr ''Ada'', ''email'' \<mapsto> JStr ''ada@example.com'',
                          ''password'' \<mapsto> JStr ''secret12'', ''role'' \<mapsto> JStr ''admin'']\<rparr>) =
   (Response 500 (Text ''Erreur serveur''), sample_db)"
proof -
  let ?r = "empty_req\<lparr>body := [''name'' \<mapsto> JStr ''Ada'', ''email'' \<mapsto> JStr ''ada@example.com'',
                          ''password'' \<mapsto> JStr ''secret12'', ''role'' \<mapsto> JStr ''admin'']\<rparr>"
  have "register_route user_errors sample_lib sample_db ?r = register user_errors sample_lib sample_db ?r"
    by (intro register_checks_pass [where n = "''Ada''" and e = "''ada@example.com''" and p = "''secret12''"])
      (simp_all add: sample_lib_def)
  also have "\<dots> = (Response 500 (Text ''Erreur serveur''), sample_db)"
    by (simp add: register_def empty_req_def str_or_empty_def sample_db_def sample_admin_def
        sample_client_def save_new_user_def user_errors_def)
  finally show ?thesis .
qed

text \<open>
  C4, amended. POST /api/auth/register needs no token. Take a request that passes the
  checks of the route, with an email not yet stored. The document the handler gives to the
  user model carries the role of the body exactly as sent, whichever it is, and the default
  client only when the body omits the role; the handler restricts the role in no way.
  Whatever the validators \<open>V\<close> of the user schema are: when they accept that document, the
  user is created with that role and the answer is 200 with a token for it; when they do
  not, the answer is 500 and the store is unchanged. The schema of the spec accepts the
  document exactly when the role is client, since the document never has a salary.
\<close>

theorem register_role_from_body:
  assumes "body r ''name'' = Some (JStr n)" and "n \<noteq> []"
    and "body r ''email'' = Some (JStr e)" and "isEmail L e" and "e \<noteq> []"
    and "body r ''password'' = Some (JStr p)" and "6 \<le> length p"
    and "verrors r = []"
    and "find (\<lambda>x. u_email x = e) (users d) = None"
    and "new_oid L \<notin> set (map u_id (users d))"
    and "role = (case body r ''role'' of None \<Rightarrow> ''client'' | Some j \<Rightarrow> castString L j)"
    and "doc = \<lparr>u_id = new_oid L, u_name = n, u_email = e, u_password = p, u_role = role,
                 u_salary = None\<rparr>"
  shows "(V doc = [] \<longrightarrow>
            register_route V L d r =
              (Response 200
                 (TokenUser (jwt_sign L \<lparr>user_id = new_oid L, user_role = role\<rparr>)
                    (new_oid L) n e role),
               d\<lparr>users := users d @ [doc\<lparr>u_password := bcrypt_hash L p\<rparr>]\<rparr>))
       \<and> (V doc \<noteq> [] \<longrightarrow>
            register_route V L d r = (Response 500 (Text ''Erreur serveur''), d))
       \<and> (user_errors doc = [] \<longleftrightarrow> role = ''client'')"
proof -
  have run: "register_route V L d r = register V L d r"
    using assms(1-4,6,7) by (intro register_checks_pass [where n = n and e = e and p = p]) simp_all
  have p: "p \<noteq> []"
    using assms(7) by auto
  have reg: "register V L d r =
      (case save_new_user V L doc d of
         Inl err \<Rightarrow> (Response 500 (Text ''Erreur serveur''), d)
       | Inr (x, d') \<Rightarrow>
           (Response 200 (TokenUser (jwt_sign L \<lparr>user_id = u_id x, user_role = u_role x\<rparr>)
              (u_id x) (u_name x) (u_email x) (u_role x)), d'))"
    unfolding assms(12) using assms(1,3,6,8,9,11) by (rule register_saves)
  have c1: "save_new_user V L doc d =
      Inr (doc\<lparr>u_password := bcrypt_hash L p\<rparr>, d\<lparr>users := users d @ [doc\<lparr>u_password := bcrypt_hash L p\<rparr>]\<rparr>)"
    if "V doc = []"
    using that assms(10,12) by (simp add: save_new_user_def insert_doc_def Let_def)
  have c2: "save_new_user V L doc d = Inl (ValidationError (V doc))" if "V doc \<noteq> []"
    using that by (simp add: save_new_user_def)
  have ok: "register_route V L d r =
      (Response 200
         (TokenUser (jwt_sign L \<lparr>user_id = new_oid L, user_role = role\<rparr>) (new_oid L) n e role),
       d\<lparr>users := users d @ [doc\<lparr>u_password := bcrypt_hash L p\<rparr>]\<rparr>)"
    if "V doc = []"
    unfolding run reg c1 [OF that] by (simp add: assms(12))
  have bad: "register_route V L d r = (Response 500 (Text ''Erreur serveur''), d)"
    if "V doc \<noteq> []"
    unfolding run reg c2 [OF that] by simp
  have spec: "user_errors doc = [] \<longleftrightarrow> role = ''client''"
    unfolding assms(12) using assms(2,5) p by (rule user_errors_register)
  show ?thesis
    using ok bad spec by blast
qed

theorem register_role_from_body_witness:
  "register_route user_errors sample_lib sample_db
     (empty_req\<lparr>body := [''name'' \<mapsto> JStr ''Ada'', ''email'' \<mapsto> JStr ''ada@example.com'',
                          ''password'' \<mapsto> JStr ''secret12'', ''role'' \<mapsto> JStr ''client'']\<rparr>) =
   (Response 200
      (TokenUser (jwt_sign sample_lib \<lparr>user_id = new_oid sample_lib, user_role = ''client''\<rparr>)
         (new_oid sample_lib) ''Ada'' ''ada@example.com'' ''client''),
    sample_db\<lparr>users := users sample_db @
       [\<lparr>u_id = new_oid sample_lib, u_name = ''Ada'', u_email = ''ada@example.com'',
         u_password = bcrypt_hash sample_lib ''secret12'', u_role = ''client'', u_salary = None\<rparr>]\<rparr>)
   \<and> register_route user_errors sample_lib sample_db
     (empty_req\<lparr>body := [''name'' \<mapsto> JStr ''Ada'', ''email'' \<mapsto> JStr ''ada@example.com'',
                          ''password'' \<mapsto> JStr ''secret12'', ''role'' \<mapsto> JStr ''staff'']\<rparr>) =
   (Response 500 (Text ''Erreur serveur''), sample_db)
   \<and> register_route (\<lambda>x. []) sample_lib sample_db
     (empty_req\<lparr>body := [''name'' \<mapsto> JStr ''Ada'', ''email'' \<mapsto> JStr ''ada@example.com'',
                          ''password'' \<mapsto> JStr ''secret12'', ''role'' \<mapsto> JStr ''staff'']\<rparr>) =
   (Response 200
      (TokenUser (jwt_sign sample_lib \<lparr>user_id = new_oid sample_lib, user_role = ''staff''\<rparr>)
         (new_oid sample_lib) ''Ada'' ''ada@example.com'' ''staff''),
    sample_db\<lparr>users := users sample_db @
       [\<lparr>u_id = new_oid sample_lib, u_name = ''Ada'', u_email = ''ada@example.com'',
         u_password = bcrypt_hash sample_lib ''secret12'', u_role = ''staff'', u_salary = None\<rparr>]\<rparr>)"
proof -
  let ?r = "empty_req\<lparr>body := [''name'' \<mapsto> JStr ''Ada'', ''email'' \<mapsto> JStr ''ada@example.com'',
                          ''password'' \<mapsto> JStr ''secret12'', ''role'' \<mapsto> JStr ''client'']\<rparr>"
  let ?q = "empty_req\<lparr>body := [''name'' \<mapsto> JStr ''Ada'', ''email'' \<mapsto> JStr ''ada@example.com'',
                          ''password'' \<mapsto> JStr ''secret12'', ''role'' \<mapsto> JStr ''staff'']\<rparr>"
  let ?c = "\<lparr>u_id = new_oid sample_lib, u_name = ''Ada'', u_email = ''ada@example.com'',
             u_password = ''secret12'', u_role = ''client'', u_salary = None\<rparr>"
  let ?s = "\<lparr>u_id = new_oid sample_lib, u_name = ''Ada'', u_email = ''ada@example.com'',
             u_password = ''secret12'', u_role = ''staff'', u_salary = None\<rparr>"
  have lib: "isEmail sample_lib ''ada@example.com''" "''Ada'' \<noteq> []" "''ada@example.com'' \<noteq> []"
    "6 \<le> length ''secret12''"
    by (simp_all add: sample_lib_def)
  have st: "find (\<lambda>x. u_email x = ''ada@example.com'') (users sample_db) = None"
    "new_oid sample_lib \<notin> set (map u_id (users sample_db))"
    by (simp_all add: sample_db_def sample_admin_def sample_client_def sample_lib_def)
  have r: "body ?r ''name'' = Some (JStr ''Ada'')" "body ?r ''email'' = Some (JStr ''ada@example.com'')"
    "body ?r ''password'' = Some (JStr ''secret12'')" "verrors ?r = []"
    "''client'' = (case body ?r ''role'' of None \<Rightarrow> ''client'' | Some j \<Rightarrow> castString sample_lib j)"
    by (simp_all add: empty_req_def)
  have q: "body ?q ''name'' = Some (JStr ''Ada'')" "body ?q ''email'' = Some (JStr ''ada@example.com'')"
    "body ?q ''password'' = Some (JStr ''secret12'')" "verrors ?q = []"
    "''staff'' = (case body ?q ''role'' of None \<Rightarrow> ''client'' | Some j \<Rightarrow> castString sample_lib j)"
    by (simp_all add: empty_req_def)
  have vc: "user_errors ?c = []" and vs: "user_errors ?s \<noteq> []" and vn: "(\<lambda>x. []) ?s = []"
    by (simp_all add: user_errors_def)
  have A: "register_route user_errors sample_lib sample_db ?r =
      (Response 200
        (TokenUser (jwt_sign sample_lib \<lparr>user_id = new_oid sample_lib, user_role = ''client''\<rparr>)
           (new_oid sample_lib) ''Ada'' ''ada@example.com'' ''client''),
       sample_db\<lparr>users := users sample_db @ [?c\<lparr>u_password := bcrypt_hash sample_lib ''secret12''\<rparr>]\<rparr>)"
    using register_role_from_body [OF r(1) lib(2) r(2) lib(1) lib(3) r(3) lib(4) r(4) st r(5) refl,
        of user_errors] vc
    by blast
  have B: "register_route user_errors sample_lib sample_db ?q =
      (Response 500 (Text ''Erreur serveur''), sample_db)"
    using register_role_from_body [OF q(1) lib(2) q(2) lib(1) lib(3) q(3) lib(4) q(4) st q(5) refl,
        of user_errors] vs
    by blast
  have C: "register_route (\<lambda>x. []) sample_lib sample_db ?q =
      (Response 200
        (TokenUser (jwt_sign sample_lib \<lparr>user_id = new_oid sample_lib, user_role = ''staff''\<rparr>)
           (new_oid sample_lib) ''Ada'' ''ada@example.com'' ''staff''),
       sample_db\<lparr>users := users sample_db @ [?s\<lparr>u_password := bcrypt_hash sample_lib ''secret12''\<rparr>]\<rparr>)"
    using register_role_from_body [OF q(1) lib(2) q(2) lib(1) lib(3) q(3) lib(4) q(4) st q(5) refl,
        of "\<lambda>x. []"] vn
    by blast
  show ?thesis
    using A B C by simp
qed

end
